theory Spec2Isabelle
  imports Complex_Main
begin

section \<open>Values and Python's dynamic operations\<close>

text \<open>
  The analyzer of \<^verbatim>\<open>backend/app/services/analyzer.py\<close> keeps every task as a
  dictionary of JSON values. A module's payload is a dictionary from field names to such
  values. Python's \<^verbatim>\<open>int\<close> is unbounded and is an \<open>int\<close> here. A \<^verbatim>\<open>float\<close> is an
  IEEE 754 double: a finite value, given by the real number it denotes, an infinity or
  a NaN. The two zeros, which are equal in Python, are one value. A dictionary inside a
  value is an association list read with \<open>map_of\<close>.
\<close>

datatype pyfloat = Finite real | PosInf | NegInf | NaN

datatype json =
    JNull
  | JBool bool
  | JInt int
  | JFloat pyfloat
  | JStr string
  | JList "json list"
  | JDict "(string \<times> json) list"

text \<open>A number as arithmetic returns it: an \<^verbatim>\<open>int\<close> or a \<^verbatim>\<open>float\<close>.\<close>

datatype pynum = PInt int | PFloat pyfloat

type_synonym jdict = "(string \<times> json) list"

text \<open>
  The exceptions the interpreter itself can raise in \<^verbatim>\<open>_generate_summary\<close>. The text of
  their messages belongs to the interpreter and is not modelled.
\<close>

datatype py_error = TypeError | KeyError | OverflowError

subsection \<open>Rounding to a double\<close>

text \<open>
  The number of binary digits of a natural number, and with it the exponent of a positive
  real: \<open>floor_log2 x\<close> is the integer \<open>e\<close> with \<open>2 ^ e \<le> x < 2 ^ (e + 1)\<close>.
\<close>

fun bit_length :: "nat \<Rightarrow> nat" where
  "bit_length n = (if n = 0 then 0 else Suc (bit_length (n div 2)))"

declare bit_length.simps [simp del]

definition floor_log2 :: "real \<Rightarrow> int" where
  "floor_log2 x =
     (if 1 \<le> x then int (bit_length (nat \<lfloor>x\<rfloor>)) - 1
      else - int (bit_length (nat (\<lceil>1 / x\<rceil> - 1))))"

text \<open>The nearest integer, a tie going to the even one.\<close>

definition round_half_even :: "real \<Rightarrow> int" where
  "round_half_even x =
     (let f = \<lfloor>x\<rfloor>; d = x - of_int f
      in if d < 1 / 2 then f
         else if 1 / 2 < d then f + 1
         else if even f then f else f + 1)"

text \<open>
  The double nearest to a real number, ties to even: a double has 53 significant binary
  digits, so the unit in the last place of a number with exponent \<open>e\<close> is
  \<open>2 ^ (e - 52)\<close>, and not below \<open>2 ^ (- 1074)\<close>, the spacing of the subnormal
  numbers. The result is the value only when the number is not too large for a double.
\<close>

definition round_double :: "real \<Rightarrow> real" where
  "round_double x =
     (if x = 0 then 0
      else (let q = max (floor_log2 \<bar>x\<bar> - 52) (- 1074)
            in sgn x * of_int (round_half_even (\<bar>x\<bar> / 2 powi q)) * 2 powi q))"

text \<open>
  A number is too large for a double when rounding takes it to \<open>2 ^ 1024\<close> or beyond,
  that is from the midpoint between the largest double \<open>2 ^ 1024 - 2 ^ 971\<close> and
  \<open>2 ^ 1024\<close> on. Converting such an \<^verbatim>\<open>int\<close> to a \<^verbatim>\<open>float\<close>, and dividing two
  \<^verbatim>\<open>int\<close>s with such a quotient, raise \<^verbatim>\<open>OverflowError\<close>; an addition of
  \<^verbatim>\<open>float\<close>s gives an infinity.
\<close>

definition too_large :: "real \<Rightarrow> bool" where
  "too_large x = (2 ^ 1024 - 2 ^ 970 \<le> \<bar>x\<bar>)"

subsection \<open>Containers, comparison, sum and division\<close>

text \<open>\<^verbatim>\<open>k in d\<close> for a dictionary \<open>d\<close>.\<close>

definition has_key :: "string \<Rightarrow> jdict \<Rightarrow> bool" where
  "has_key k d = (map_of d k \<noteq> None)"

text \<open>\<^verbatim>\<open>k in s\<close> for two strings: \<open>k\<close> occurs in \<open>s\<close> as a contiguous substring.\<close>

fun is_substring :: "string \<Rightarrow> string \<Rightarrow> bool" where
  "is_substring k [] = (k = [])"
| "is_substring k (c # cs) = (take (length k) (c # cs) = k \<or> is_substring k cs)"

text \<open>
  \<^verbatim>\<open>k in v\<close> for a string \<open>k\<close> and any value \<open>v\<close>: key membership in a dictionary,
  element membership in a list, substring test in a string, and a \<^verbatim>\<open>TypeError\<close> on a
  value that is not a container.
\<close>

fun py_in :: "string \<Rightarrow> json \<Rightarrow> py_error + bool" where
  "py_in k (JDict d) = Inr (has_key k d)"
| "py_in k (JList xs) = Inr (JStr k \<in> set xs)"
| "py_in k (JStr s) = Inr (is_substring k s)"
| "py_in k JNull = Inl TypeError"
| "py_in k (JBool b) = Inl TypeError"
| "py_in k (JInt i) = Inl TypeError"
| "py_in k (JFloat r) = Inl TypeError"

text \<open>
  \<^verbatim>\<open>v[k]\<close> with a string \<open>k\<close>: the value under the key in a dictionary
  (\<^verbatim>\<open>KeyError\<close> when absent) and a \<^verbatim>\<open>TypeError\<close> on every other value.
\<close>

fun py_getitem :: "json \<Rightarrow> string \<Rightarrow> py_error + json" where
  "py_getitem (JDict d) k = (case map_of d k of None \<Rightarrow> Inl KeyError | Some v \<Rightarrow> Inr v)"
| "py_getitem v k = Inl TypeError"

text \<open>
  The number a value stands for in arithmetic and comparison: \<^verbatim>\<open>bool\<close> is a subclass
  of \<^verbatim>\<open>int\<close> (\<^verbatim>\<open>True\<close> is 1); every other non-number has none.
\<close>

fun number_of :: "json \<Rightarrow> pynum option" where
  "number_of (JInt i) = Some (PInt i)"
| "number_of (JFloat x) = Some (PFloat x)"
| "number_of (JBool b) = Some (PInt (if b then 1 else 0))"
| "number_of v = None"

text \<open>
  \<^verbatim>\<open>v > n\<close> for an integer literal \<open>n\<close>. An \<^verbatim>\<open>int\<close> and a \<^verbatim>\<open>float\<close> are compared
  by their exact values; a NaN is greater than nothing.
\<close>

fun float_gt :: "pyfloat \<Rightarrow> int \<Rightarrow> bool" where
  "float_gt (Finite r) n = (of_int n < r)"
| "float_gt PosInf n = True"
| "float_gt NegInf n = False"
| "float_gt NaN n = False"

definition py_gt :: "json \<Rightarrow> int \<Rightarrow> py_error + bool" where
  "py_gt v n =
     (case number_of v of
        None \<Rightarrow> Inl TypeError
      | Some (PInt i) \<Rightarrow> Inr (n < i)
      | Some (PFloat x) \<Rightarrow> Inr (float_gt x n))"

text \<open>
  \<^verbatim>\<open>sum(scores)\<close> starts from the \<^verbatim>\<open>int\<close> 0 and goes through the items from left to
  right. As long as the items are \<^verbatim>\<open>int\<close>s the total is their exact sum. A non-number
  raises \<^verbatim>\<open>TypeError\<close>. At the first \<^verbatim>\<open>float\<close> the total is converted to a
  \<^verbatim>\<open>float\<close>, which raises \<^verbatim>\<open>OverflowError\<close> when it is too large, and from then on
  the sum is a \<^verbatim>\<open>float\<close>: each later \<^verbatim>\<open>int\<close> is converted as well.

  How the interpreter rounds a sum of \<^verbatim>\<open>float\<close>s depends on its version (CPython adds
  one item after the other through version 3.11 and compensates the rounding errors from
  3.12 on). The value of such a sum is therefore a parameter \<open>fs\<close> of the model:
  \<open>fs acc items\<close> is the sum that continues from the integer total \<open>acc\<close> over the remaining
  numbers, the first of them a \<^verbatim>\<open>float\<close>. Which exception a sum raises, and the sum of
  \<^verbatim>\<open>int\<close>s, do not depend on it.
\<close>

type_synonym float_sum = "int \<Rightarrow> pynum list \<Rightarrow> pyfloat"

fun float_items :: "json list \<Rightarrow> py_error + pynum list" where
  "float_items [] = Inr []"
| "float_items (v # vs) =
     (case number_of v of
        None \<Rightarrow> Inl TypeError
      | Some (PInt i) \<Rightarrow>
          (if too_large (of_int i) then Inl OverflowError
           else (case float_items vs of Inl e \<Rightarrow> Inl e | Inr ns \<Rightarrow> Inr (PInt i # ns)))
      | Some (PFloat x) \<Rightarrow>
          (case float_items vs of Inl e \<Rightarrow> Inl e | Inr ns \<Rightarrow> Inr (PFloat x # ns)))"

fun py_sum_from :: "float_sum \<Rightarrow> int \<Rightarrow> json list \<Rightarrow> py_error + pynum" where
  "py_sum_from fs acc [] = Inr (PInt acc)"
| "py_sum_from fs acc (v # vs) =
     (case number_of v of
        None \<Rightarrow> Inl TypeError
      | Some (PInt i) \<Rightarrow> py_sum_from fs (acc + i) vs
      | Some (PFloat x) \<Rightarrow>
          (if too_large (of_int acc) then Inl OverflowError
           else (case float_items vs of
                   Inl e \<Rightarrow> Inl e
                 | Inr ns \<Rightarrow> Inr (PFloat (fs acc (PFloat x # ns))))))"

definition py_sum :: "float_sum \<Rightarrow> json list \<Rightarrow> py_error + pynum" where
  "py_sum fs vs = py_sum_from fs 0 vs"

text \<open>
  \<^verbatim>\<open>s / n\<close> for a sum \<open>s\<close> and a positive length \<open>n\<close>. The quotient of two
  \<^verbatim>\<open>int\<close>s is the double nearest to the exact quotient, and \<^verbatim>\<open>OverflowError\<close> when
  that is too large. A \<^verbatim>\<open>float\<close> divided by the length is the rounded quotient again;
  an infinity and a NaN stay what they are.
\<close>

fun float_div :: "pyfloat \<Rightarrow> nat \<Rightarrow> pyfloat" where
  "float_div (Finite r) n = Finite (round_double (r / of_nat n))"
| "float_div x n = x"

fun true_divide :: "pynum \<Rightarrow> nat \<Rightarrow> py_error + pyfloat" where
  "true_divide (PInt s) n =
     (if too_large (of_int s / of_nat n) then Inl OverflowError
      else Inr (Finite (round_double (of_int s / of_nat n))))"
| "true_divide (PFloat x) n = Inr (float_div x n)"

section \<open>The summary\<close>

record issues =
  critical :: int
  important :: int
  moderate :: int
  minor :: int

record recommendation =
  category :: string
  priority :: string
  title :: string
  description :: string

record summary =
  overall_score :: pynum
  metrics :: "string \<rightharpoonup> json"
  issues :: issues
  recommendations :: "recommendation list"

text \<open>
  The results mapping of a task: module name to the module's payload or to an error
  marker \<^verbatim>\<open>{"error": message}\<close>, both dictionaries.
\<close>

type_synonym results = "string \<rightharpoonup> jdict"

text \<open>
  One of the three blocks of \<^verbatim>\<open>_generate_summary\<close> that collect a score:
  \<^verbatim>\<open>if name in results: p = results[name]; if field in p: scores.append(p[field]);
  summary["metrics"][name] = p[field]\<close>.
\<close>

definition collect_score ::
  "results \<Rightarrow> string \<Rightarrow> string \<Rightarrow> json list \<times> (string \<rightharpoonup> json) \<Rightarrow> json list \<times> (string \<rightharpoonup> json)"
where
  "collect_score res name field sm =
     (case res name of
        None \<Rightarrow> sm
      | Some p \<Rightarrow>
          (case map_of p field of
             None \<Rightarrow> sm
           | Some v \<Rightarrow> (fst sm @ [v], (snd sm)(name \<mapsto> v))))"

text \<open>
  The average: \<^verbatim>\<open>if scores: overall_score = sum(scores) / len(scores)\<close>; otherwise the
  score stays the \<^verbatim>\<open>int\<close> 0 it was initialised with.
\<close>

definition average_score :: "float_sum \<Rightarrow> json list \<Rightarrow> py_error + pynum" where
  "average_score fs scores =
     (if scores = [] then Inr (PInt 0)
      else (case py_sum fs scores of
              Inl e \<Rightarrow> Inl e
            | Inr s \<Rightarrow>
                (case true_divide s (length scores) of
                   Inl e \<Rightarrow> Inl e
                 | Inr x \<Rightarrow> Inr (PFloat x))))"

definition fcp_recommendation :: recommendation where
  "fcp_recommendation =
     \<lparr> category = ''performance'',
       priority = ''important'',
       title = ''Improve First Contentful Paint'',
       description = ''First Contentful Paint is too slow. Consider optimizing server response time and critical rendering path.'' \<rparr>"

text \<open>
  The guard of the single recommendation rule:
  \<^verbatim>\<open>"first_contentful_paint" in perf_metrics and perf_metrics["first_contentful_paint"] > 2000\<close>,
  where \<open>perf_metrics\<close> is whatever value the performance payload holds under
  \<^verbatim>\<open>"metrics"\<close>; \<^verbatim>\<open>and\<close> evaluates its right side only when the left one is true.
\<close>

definition fcp_too_slow :: "json \<Rightarrow> py_error + bool" where
  "fcp_too_slow perf_metrics =
     (case py_in ''first_contentful_paint'' perf_metrics of
        Inl e \<Rightarrow> Inl e
      | Inr False \<Rightarrow> Inr False
      | Inr True \<Rightarrow>
          (case py_getitem perf_metrics ''first_contentful_paint'' of
             Inl e \<Rightarrow> Inl e
           | Inr v \<Rightarrow> py_gt v 2000))"

text \<open>
  The second half of \<^verbatim>\<open>_generate_summary\<close>:
  \<^verbatim>\<open>if "performance" in results and "metrics" in results["performance"]: ...\<close>.
\<close>

definition slow_paint :: "results \<Rightarrow> py_error + bool" where
  "slow_paint res =
     (case res ''performance'' of
        None \<Rightarrow> Inr False
      | Some perf \<Rightarrow>
          (case map_of perf ''metrics'' of
             None \<Rightarrow> Inr False
           | Some perf_metrics \<Rightarrow> fcp_too_slow perf_metrics))"

text \<open>
  \<^verbatim>\<open>WebsiteAnalyzer._generate_summary\<close>, for an interpreter that sums \<^verbatim>\<open>float\<close>s as
  \<open>fs\<close> says. An exception raised on the way leaves the function; nothing it built is
  returned.
\<close>

definition generate_summary :: "float_sum \<Rightarrow> results \<Rightarrow> py_error + summary" where
  "generate_summary fs res =
     (let sm0 = ([], Map.empty);
          sm1 = collect_score res ''performance'' ''lighthouse_score'' sm0;
          sm2 = collect_score res ''seo'' ''score'' sm1;
          sm3 = collect_score res ''accessibility'' ''score'' sm2
      in case average_score fs (fst sm3) of
           Inl e \<Rightarrow> Inl e
         | Inr avg \<Rightarrow>
             (case slow_paint res of
                Inl e \<Rightarrow> Inl e
              | Inr slow \<Rightarrow>
                  Inr \<lparr> overall_score = avg,
                        metrics = snd sm3,
                        issues = \<lparr> critical = 0, important = (if slow then 1 else 0),
                                   moderate = 0, minor = 0 \<rparr>,
                        recommendations = (if slow then [fcp_recommendation] else []) \<rparr>))"

section \<open>Task records, the task store and the files\<close>

text \<open>
  The status of a task is one of the four strings \<^verbatim>\<open>"pending"\<close>, \<^verbatim>\<open>"running"\<close>,
  \<^verbatim>\<open>"completed"\<close> and \<^verbatim>\<open>"error"\<close>; no other value is ever assigned.
\<close>

datatype status = Pending | Running | Completed | Error

text \<open>
  A task is the dictionary that \<^verbatim>\<open>start_analysis\<close> creates. The keys
  \<^verbatim>\<open>"summary"\<close>, \<^verbatim>\<open>"completed_at"\<close> and \<^verbatim>\<open>"error"\<close> are absent until
  \<^verbatim>\<open>run_analysis\<close> assigns them. \<^verbatim>\<open>"error"\<close> holds \<^verbatim>\<open>str(e)\<close> of the exception
  caught by the outer handler; the field keeps the exception itself.
\<close>

record task =
  status :: status
  url :: string
  modules :: "string list"
  depth :: int
  device :: string
  timestamp :: string
  results :: results
  started_at :: string
  summary :: "summary option"
  completed_at :: "string option"
  error :: "py_error option"

text \<open>
  What \<^verbatim>\<open>json.load\<close> returns for a file, and what a lookup returns: the dictionary of a
  task record, as \<^verbatim>\<open>json.dump\<close> wrote it, or any other JSON value.
\<close>

datatype document = TaskDict task | Json json

text \<open>
  A file of the storage directory either loads or makes reading raise;
  \<open>Unreadable msg\<close> is a file whose reading raises an exception with
  \<^verbatim>\<open>str(e) = msg\<close>, for instance the partial output of a dump that failed.
\<close>

datatype stored_file = Loads document | Unreadable string

text \<open>
  The truth value of a loaded value in \<^verbatim>\<open>if loaded_task\<close>: \<^verbatim>\<open>None\<close>, \<^verbatim>\<open>False\<close>,
  zero and the empty string, list and dictionary are false. The dictionary of a task
  record has keys and is true.
\<close>

fun py_bool :: "json \<Rightarrow> bool" where
  "py_bool JNull = False"
| "py_bool (JBool b) = b"
| "py_bool (JInt i) = (i \<noteq> 0)"
| "py_bool (JFloat x) = (x \<noteq> Finite 0)"
| "py_bool (JStr s) = (s \<noteq> [])"
| "py_bool (JList xs) = (xs \<noteq> [])"
| "py_bool (JDict d) = (d \<noteq> [])"

fun truthy :: "document \<Rightarrow> bool" where
  "truthy (TaskDict t) = True"
| "truthy (Json v) = py_bool v"

text \<open>
  One call of the logger. \<open>LogErrorExc prefix e\<close> is an error message that ends in
  \<^verbatim>\<open>str(e)\<close> for an exception \<open>e\<close> of the interpreter.
\<close>

datatype log_entry =
    LogInfo string
  | LogWarning string
  | LogError string
  | LogErrorExc string py_error

text \<open>
  The state the analyzer works on: the module-level dictionary \<^verbatim>\<open>analysis_tasks\<close>,
  the files under the storage directory by path, and what has been logged.
\<close>

record world =
  analysis_tasks :: "string \<rightharpoonup> task"
  disk :: "string \<rightharpoonup> stored_file"
  logged :: "log_entry list"

text \<open>\<^verbatim>\<open>os.path.join(a, b)\<close> on a POSIX system.\<close>

definition path_join :: "string \<Rightarrow> string \<Rightarrow> string" where
  "path_join a b =
     (if b \<noteq> [] \<and> hd b = CHR ''/'' then b
      else if a = [] \<or> last a = CHR ''/'' then a @ b
      else a @ ''/'' @ b)"

definition storage_dir :: string where
  "storage_dir = path_join ''data'' ''analysis_results''"

definition filename :: "string \<Rightarrow> string" where
  "filename task_id = path_join storage_dir (task_id @ ''.json'')"

definition quoted :: "string \<Rightarrow> string" where
  "quoted s = CHR 0x27 # s @ [CHR 0x27]"

section \<open>The analysis modules\<close>

text \<open>
  What the analyzer needs from outside: the five module functions, the interpreter's sum
  of \<^verbatim>\<open>float\<close>s, the clock and the file system. A module function returns a payload
  (\<open>Inr\<close>) or raises an exception (\<open>Inl\<close>, with \<^verbatim>\<open>str(e)\<close>); \<open>now\<close> is
  \<^verbatim>\<open>datetime.now().isoformat()\<close> at completion.

  \<open>write_outcome\<close> is what the file system does when \<^verbatim>\<open>_save_results\<close> opens the
  task's file and dumps the record: the write succeeds, or it raises an exception with
  \<^verbatim>\<open>str(e) = msg\<close> and leaves the path as it was (\<open>None\<close>, the file could not be
  opened) or holding the given file (\<open>Some f\<close>).
\<close>

datatype write_outcome = Written | WriteFails string "stored_file option"

record env =
  analyze_performance :: "string \<Rightarrow> string \<Rightarrow> string + jdict"
  analyze_seo :: "string \<Rightarrow> int \<Rightarrow> string + jdict"
  analyze_accessibility :: "string \<Rightarrow> string + jdict"
  analyze_technology_stack :: "string \<Rightarrow> string + jdict"
  analyze_carbon_emissions :: "string \<Rightarrow> string + jdict"
  float_sum :: float_sum
  now :: string
  write_outcome :: write_outcome

text \<open>
  The payloads of the repository's own placeholder modules. A \<^verbatim>\<open>float\<close> literal denotes
  the double nearest to its decimal value.
\<close>

definition float_literal :: "real \<Rightarrow> json" where
  "float_literal x = JFloat (Finite (round_double x))"

definition performance_payload :: jdict where
  "performance_payload =
     [(''lighthouse_score'', JInt 85),
      (''metrics'', JDict
         [(''first_contentful_paint'', JInt 1200),
          (''speed_index'', JInt 1800),
          (''largest_contentful_paint'', JInt 2500),
          (''time_to_interactive'', JInt 3200),
          (''total_blocking_time'', JInt 250),
          (''cumulative_layout_shift'', float_literal 0.12)]),
      (''opportunities'', JList
         [JDict
            [(''title'', JStr ''Properly size images''),
             (''description'', JStr ''Serve images that are appropriately-sized to save cellular data and improve load time.''),
             (''score'', JInt 80)],
          JDict
            [(''title'', JStr ''Eliminate render-blocking resources''),
             (''description'', JStr ''Resources are blocking the first paint of your page. Consider delivering critical JS/CSS inline and deferring all non-critical JS/styles.''),
             (''score'', JInt 65)]])]"

definition seo_payload :: jdict where
  "seo_payload =
     [(''score'', JInt 78),
      (''on_page'', JDict
         [(''title'', JDict
             [(''found'', JBool True),
              (''value'', JStr ''Example Website - Home Page''),
              (''length'', JInt 26),
              (''score'', JInt 85)]),
          (''meta_description'', JDict
             [(''found'', JBool True),
              (''value'', JStr ''This is an example website description that would appear in search results.''),
              (''length'', JInt 74),
              (''score'', JInt 90)]),
          (''headings'', JDict
             [(''h1_count'', JInt 1),
              (''h2_count'', JInt 5),
              (''h3_count'', JInt 8),
              (''score'', JInt 95)])]),
      (''issues'', JList
         [JDict
            [(''type'', JStr ''warning''),
             (''message'', JStr ''Meta description could be more descriptive'')],
          JDict
            [(''type'', JStr ''info''),
             (''message'', JStr ''Consider adding more internal links to important pages'')]])]"

definition accessibility_payload :: jdict where
  "accessibility_payload =
     [(''score'', JInt 72),
      (''wcag_compliance'', JDict
         [(''a'', JInt 95), (''aa'', JInt 80), (''aaa'', JInt 45)]),
      (''issues'', JList
         [JDict
            [(''type'', JStr ''error''),
             (''wcag'', JStr ''1.1.1''),
             (''message'', JStr ''Images must have alternate text''),
             (''elements'', JInt 3)],
          JDict
            [(''type'', JStr ''warning''),
             (''wcag'', JStr ''1.4.3''),
             (''message'', JStr ''Text contrast ratio should be at least 4.5:1''),
             (''elements'', JInt 5)]])]"

definition technology_payload :: jdict where
  "technology_payload =
     [(''frameworks'', JList
         [JDict
            [(''name'', JStr ''React''),
             (''version'', JStr ''17.0.2''),
             (''confidence'', JInt 95)],
          JDict
            [(''name'', JStr ''Bootstrap''),
             (''version'', JStr ''5.1.0''),
             (''confidence'', JInt 90)]]),
      (''server'', JDict
         [(''name'', JStr ''Nginx''),
          (''version'', JStr ''1.20.0''),
          (''confidence'', JInt 100)]),
      (''analytics'', JList
         [JDict
            [(''name'', JStr ''Google Analytics''),
             (''version'', JStr ''GA4''),
             (''confidence'', JInt 100)]]),
      (''cdn'', JDict
         [(''name'', JStr ''Cloudflare''),
          (''confidence'', JInt 95)])]"

definition carbon_payload :: jdict where
  "carbon_payload =
     [(''co2_per_visit'', float_literal 0.78),
      (''energy_consumption'', float_literal 0.00025),
      (''cleaner_than'', JInt 65),
      (''transfer_size'', float_literal 2.4),
      (''recommendations'', JList
         [JStr ''Optimize images to reduce file size'',
          JStr ''Use a green hosting provider'',
          JStr ''Implement lazy loading for below-the-fold content''])]"

text \<open>
  The repository's module functions: each sleeps and returns its literal payload,
  whatever its arguments. The interpreter, the clock and the file system stay parameters.
\<close>

definition placeholders :: "float_sum \<Rightarrow> string \<Rightarrow> write_outcome \<Rightarrow> env" where
  "placeholders fs clock wo =
     \<lparr> analyze_performance = (\<lambda>u d. Inr performance_payload),
       analyze_seo = (\<lambda>u n. Inr seo_payload),
       analyze_accessibility = (\<lambda>u. Inr accessibility_payload),
       analyze_technology_stack = (\<lambda>u. Inr technology_payload),
       analyze_carbon_emissions = (\<lambda>u. Inr carbon_payload),
       float_sum = fs,
       now = clock,
       write_outcome = wo \<rparr>"

section \<open>The analyzer\<close>

text \<open>
  \<^verbatim>\<open>WebsiteAnalyzer.start_analysis\<close>. The identifier \<^verbatim>\<open>str(uuid.uuid4())\<close> and the
  timestamp \<^verbatim>\<open>datetime.now().isoformat()\<close> come from outside and are the first two
  arguments; the function returns the identifier it was given.
\<close>

definition start_analysis ::
  "string \<Rightarrow> string \<Rightarrow> string \<Rightarrow> string list \<Rightarrow> int \<Rightarrow> string \<Rightarrow> world \<Rightarrow> world"
where
  "start_analysis task_id stamp u ms n d w =
     w\<lparr> analysis_tasks := (analysis_tasks w)(task_id \<mapsto>
            \<lparr> status = Pending, url = u, modules = ms, depth = n, device = d,
              timestamp = stamp, results = Map.empty, started_at = stamp,
              summary = None, completed_at = None, error = None \<rparr>),
        logged := logged w @
            [LogInfo (''Analysis task '' @ task_id @ '' created for URL: '' @ u)] \<rparr>"

text \<open>
  The \<^verbatim>\<open>if\<close>/\<^verbatim>\<open>elif\<close> chain of the dispatcher: the module function a name
  stands for, called on the task's parameters, or \<open>None\<close> for a name of no module.
\<close>

definition invoke :: "env \<Rightarrow> task \<Rightarrow> string \<Rightarrow> (string + jdict) option" where
  "invoke env t module_name =
     (if module_name = ''performance'' then Some (analyze_performance env (url t) (device t))
      else if module_name = ''seo'' then Some (analyze_seo env (url t) (depth t))
      else if module_name = ''accessibility'' then Some (analyze_accessibility env (url t))
      else if module_name = ''technology'' then Some (analyze_technology_stack env (url t))
      else if module_name = ''carbon'' then Some (analyze_carbon_emissions env (url t))
      else None)"

text \<open>
  During a run the variable \<^verbatim>\<open>task\<close> refers to the record in the store, so every
  assignment to it changes the store's entry. The run carries the record and the log;
  \<open>store\<close> puts them back into the world.
\<close>

type_synonym run_state = "task \<times> log_entry list"

definition store :: "string \<Rightarrow> run_state \<Rightarrow> world \<Rightarrow> world" where
  "store task_id st w =
     w\<lparr> analysis_tasks := (analysis_tasks w)(task_id \<mapsto> fst st), logged := snd st \<rparr>"

text \<open>
  One iteration of the loop over \<^verbatim>\<open>task["modules"]\<close>: an unknown name is skipped
  with a warning (\<^verbatim>\<open>continue\<close>), a payload is stored under the name, and an exception
  of the module is caught, logged and stored as \<^verbatim>\<open>{"error": str(e)}\<close>.
\<close>

definition run_module :: "env \<Rightarrow> string \<Rightarrow> string \<Rightarrow> run_state \<Rightarrow> run_state" where
  "run_module env task_id module_name st =
     (let t = fst st;
          lg = snd st @
            [LogInfo (''Running module '' @ quoted module_name @ '' for task '' @ task_id)]
      in case invoke env t module_name of
           None \<Rightarrow>
             (t, lg @ [LogWarning (''Unknown module '' @ quoted module_name @ '', skipping'')])
         | Some (Inr payload) \<Rightarrow>
             (t\<lparr> results := (results t)(module_name \<mapsto> payload) \<rparr>, lg)
         | Some (Inl msg) \<Rightarrow>
             (t\<lparr> results := (results t)(module_name \<mapsto> [(''error'', JStr msg)]) \<rparr>,
              lg @ [LogError (''Error in module '' @ quoted module_name @ '' for task ''
                              @ task_id @ '': '' @ msg)]))"

fun run_modules :: "env \<Rightarrow> string \<Rightarrow> string list \<Rightarrow> run_state \<Rightarrow> run_state" where
  "run_modules env task_id [] st = st"
| "run_modules env task_id (m # ms) st =
     run_modules env task_id ms (run_module env task_id m st)"

text \<open>
  \<^verbatim>\<open>WebsiteAnalyzer._save_results\<close>: any exception of opening or writing the file is
  caught and logged.
\<close>

definition save_results :: "write_outcome \<Rightarrow> string \<Rightarrow> task \<Rightarrow> world \<Rightarrow> world" where
  "save_results wo task_id t w =
     (case wo of
        Written \<Rightarrow> w\<lparr> disk := (disk w)(filename task_id \<mapsto> Loads (TaskDict t)) \<rparr>
      | WriteFails msg left \<Rightarrow>
          w\<lparr> disk := (case left of None \<Rightarrow> disk w
                               | Some f \<Rightarrow> (disk w)(filename task_id \<mapsto> f)),
             logged := logged w @
               [LogError (''Failed to save results for task '' @ task_id @ '': '' @ msg)] \<rparr>)"

text \<open>\<^verbatim>\<open>json.load\<close> on an open file.\<close>

definition json_load :: "stored_file \<Rightarrow> string + document" where
  "json_load f = (case f of Loads d \<Rightarrow> Inr d | Unreadable msg \<Rightarrow> Inl msg)"

text \<open>
  \<^verbatim>\<open>WebsiteAnalyzer._load_results\<close>: what the task's file loads to when the file exists
  and loads, \<open>None\<close> when there is no file, and \<open>None\<close> with a logged error when
  reading raises.
\<close>

definition load_results :: "string \<Rightarrow> world \<Rightarrow> document option \<times> world" where
  "load_results task_id w =
     (case disk w (filename task_id) of
        None \<Rightarrow> (None, w)
      | Some f \<Rightarrow>
          (case json_load f of
             Inr d \<Rightarrow> (Some d, w)
           | Inl msg \<Rightarrow>
               (None, w\<lparr> logged := logged w @
                  [LogError (''Failed to load results for task '' @ task_id @ '': '' @ msg)] \<rparr>)))"

text \<open>
  \<^verbatim>\<open>WebsiteAnalyzer.get_analysis_results\<close>: the record of the store, or what
  \<^verbatim>\<open>_load_results\<close> returned if that is true in \<^verbatim>\<open>if loaded_task\<close>, or \<open>None\<close>.
\<close>

definition get_analysis_results :: "string \<Rightarrow> world \<Rightarrow> document option \<times> world" where
  "get_analysis_results task_id w =
     (case analysis_tasks w task_id of
        None \<Rightarrow>
          (case load_results task_id w of
             (None, w') \<Rightarrow> (None, w')
           | (Some loaded_task, w') \<Rightarrow>
               (if truthy loaded_task then (Some loaded_task, w') else (None, w')))
      | Some t \<Rightarrow> (Some (TaskDict t), w))"

text \<open>
  The end of \<^verbatim>\<open>run_analysis\<close>, after the loop: on success the summary, the status,
  the completion time, the save and the last log line; when \<^verbatim>\<open>_generate_summary\<close>
  raises, the outer handler.
\<close>

definition finish :: "env \<Rightarrow> string \<Rightarrow> run_state \<Rightarrow> world \<Rightarrow> world" where
  "finish env task_id st w =
     (let t = fst st; lg = snd st
      in case generate_summary (float_sum env) (results t) of
           Inl e \<Rightarrow>
             store task_id
               (t\<lparr> status := Error, error := Some e \<rparr>,
                lg @ [LogErrorExc (''Error in analysis task '' @ task_id @ '': '') e]) w
         | Inr s \<Rightarrow>
             (let t' = t\<lparr> summary := Some s, status := Completed,
                          completed_at := Some (now env) \<rparr>;
                  w' = save_results (write_outcome env) task_id t' (store task_id (t', lg) w)
              in w'\<lparr> logged := logged w' @
                   [LogInfo (''Analysis completed for task '' @ task_id)] \<rparr>))"

text \<open>The state in which the loop starts: status running, first log line written.\<close>

definition running :: "string \<Rightarrow> task \<Rightarrow> world \<Rightarrow> run_state" where
  "running task_id t w =
     (t\<lparr> status := Running \<rparr>,
      logged w @ [LogInfo (''Starting analysis for task '' @ task_id
                           @ '' ('' @ url t @ '')'')])"

text \<open>\<^verbatim>\<open>WebsiteAnalyzer.run_analysis\<close>.\<close>

definition run_analysis :: "env \<Rightarrow> string \<Rightarrow> world \<Rightarrow> world" where
  "run_analysis env task_id w =
     (case analysis_tasks w task_id of
        None \<Rightarrow> w\<lparr> logged := logged w @ [LogError (''Task '' @ task_id @ '' not found'')] \<rparr>
      | Some t \<Rightarrow>
          finish env task_id (run_modules env task_id (modules t) (running task_id t w)) w)"

section \<open>The states a run passes through\<close>

text \<open>
  A poll can read the store between any two statements of \<^verbatim>\<open>run_analysis\<close>. The
  traces list the world after each statement that changes it, in order: after each
  iteration of the loop, and after each statement of the end of the run.
\<close>

fun run_modules_trace :: "env \<Rightarrow> string \<Rightarrow> string list \<Rightarrow> run_state \<Rightarrow> run_state list" where
  "run_modules_trace env task_id [] st = []"
| "run_modules_trace env task_id (m # ms) st =
     run_module env task_id m st # run_modules_trace env task_id ms (run_module env task_id m st)"

definition finish_trace :: "env \<Rightarrow> string \<Rightarrow> run_state \<Rightarrow> world \<Rightarrow> world list" where
  "finish_trace env task_id st w =
     (let t = fst st; lg = snd st
      in case generate_summary (float_sum env) (results t) of
           Inl e \<Rightarrow>
             (let lg' = lg @ [LogErrorExc (''Error in analysis task '' @ task_id @ '': '') e]
              in [store task_id (t, lg') w,
                  store task_id (t\<lparr> status := Error \<rparr>, lg') w,
                  store task_id (t\<lparr> status := Error, error := Some e \<rparr>, lg') w])
         | Inr s \<Rightarrow>
             (let t1 = t\<lparr> summary := Some s \<rparr>;
                  t2 = t1\<lparr> status := Completed \<rparr>;
                  t3 = t2\<lparr> completed_at := Some (now env) \<rparr>;
                  w' = save_results (write_outcome env) task_id t3 (store task_id (t3, lg) w)
              in [store task_id (t1, lg) w,
                  store task_id (t2, lg) w,
                  store task_id (t3, lg) w,
                  w',
                  w'\<lparr> logged := logged w' @
                    [LogInfo (''Analysis completed for task '' @ task_id)] \<rparr>]))"

definition run_analysis_trace :: "env \<Rightarrow> string \<Rightarrow> world \<Rightarrow> world list" where
  "run_analysis_trace env task_id w =
     (case analysis_tasks w task_id of
        None \<Rightarrow> [w\<lparr> logged := logged w @ [LogError (''Task '' @ task_id @ '' not found'')] \<rparr>]
      | Some t \<Rightarrow>
          (let st = running task_id t w
           in map (\<lambda>st. store task_id st w)
                ((t\<lparr> status := Running \<rparr>, logged w) # st
                   # run_modules_trace env task_id (modules t) st)
              @ finish_trace env task_id (run_modules env task_id (modules t) st) w))"

text \<open>
  The life of one task: created by \<^verbatim>\<open>start_analysis\<close>, then run once in the
  background, as the endpoint \<^verbatim>\<open>POST /analyze\<close> schedules it.
\<close>

definition lifecycle_trace ::
  "env \<Rightarrow> string \<Rightarrow> string \<Rightarrow> string \<Rightarrow> string list \<Rightarrow> int \<Rightarrow> string \<Rightarrow> world \<Rightarrow> world list"
where
  "lifecycle_trace env task_id stamp u ms n d w =
     (let w0 = start_analysis task_id stamp u ms n d w
      in w0 # run_analysis_trace env task_id w0)"

definition status_history :: "string \<Rightarrow> world list \<Rightarrow> status option list" where
  "status_history task_id ws = map (\<lambda>w. map_option status (analysis_tasks w task_id)) ws"

section \<open>The words of the specification\<close>

text \<open>
  The score of a module's result, if present: the value under the given field of the
  result stored under the module's name.
\<close>

definition score_field :: "results \<Rightarrow> string \<Rightarrow> string \<Rightarrow> json option" where
  "score_field res name field = (case res name of None \<Rightarrow> None | Some p \<Rightarrow> map_of p field)"

text \<open>
  The scores that are present among the performance result's \<^verbatim>\<open>lighthouse_score\<close>
  and the SEO and accessibility results' \<^verbatim>\<open>score\<close>.
\<close>

definition present_scores :: "results \<Rightarrow> json list" where
  "present_scores res =
     List.map_filter id
       [score_field res ''performance'' ''lighthouse_score'',
        score_field res ''seo'' ''score'',
        score_field res ''accessibility'' ''score'']"

text \<open>An integer score: an \<^verbatim>\<open>int\<close>, or a \<^verbatim>\<open>bool\<close>, which is one.\<close>

fun int_of :: "json \<Rightarrow> int option" where
  "int_of (JInt i) = Some i"
| "int_of (JBool b) = Some (if b then 1 else 0)"
| "int_of v = None"

definition arithmetic_mean :: "int list \<Rightarrow> real" where
  "arithmetic_mean xs = of_int (sum_list xs) / of_nat (length xs)"

text \<open>
  The lookup as the specification words it: the in-memory record if present; otherwise
  the persisted form, loaded from the task's file under the storage directory, when that
  exists and loads; otherwise absent.
\<close>

definition get_as_specified :: "string \<Rightarrow> world \<Rightarrow> document option" where
  "get_as_specified task_id w =
     (case analysis_tasks w task_id of
        Some t \<Rightarrow> Some (TaskDict t)
      | None \<Rightarrow>
          (case disk w (''data/analysis_results/'' @ task_id @ ''.json'') of
             Some (Loads d) \<Rightarrow> Some d
           | Some (Unreadable msg) \<Rightarrow> None
           | None \<Rightarrow> None))"

text \<open>The recognized set of module names.\<close>

definition recognized_modules :: "string set" where
  "recognized_modules = {''performance'', ''seo'', ''accessibility'', ''technology'', ''carbon''}"

text \<open>
  The entry a module's outcome leaves in the results mapping: its payload, or the error
  marker \<^verbatim>\<open>{error: message}\<close>.
\<close>

definition entry_of :: "string + jdict \<Rightarrow> jdict" where
  "entry_of r = (case r of Inr payload \<Rightarrow> payload | Inl msg \<Rightarrow> [(''error'', JStr msg)])"

text \<open>
  The results mapping the loop of the dispatcher leaves, in closed form: under every
  requested name of a module the entry of that module's outcome, and elsewhere what the
  mapping held before. \<open>dispatched_task\<close> below proves that \<open>run_modules\<close> computes it.
\<close>

definition dispatched :: "env \<Rightarrow> task \<Rightarrow> results" where
  "dispatched env t =
     (\<lambda>m. if m \<in> set (modules t) \<and> m \<in> recognized_modules
          then map_option entry_of (invoke env t m)
          else results t m)"

section \<open>Example inputs\<close>

text \<open>
  Concrete worlds, tasks and environments on which the theorems below are instantiated:
  a task that requests two modules and an unknown name, the placeholder modules, an SEO
  module that raises, a performance module whose score is not a number, and a file system
  that fails on writing.
\<close>

definition failed_seo_results :: results where
  "failed_seo_results =
     [''performance'' \<mapsto> performance_payload,
      ''seo'' \<mapsto> [(''error'', JStr ''timed out'')],
      ''accessibility'' \<mapsto> accessibility_payload]"

definition empty_world :: world where
  "empty_world = \<lparr> analysis_tasks = Map.empty, disk = Map.empty, logged = [] \<rparr>"

definition example_task :: task where
  "example_task =
     \<lparr> status = Pending, url = ''https://example.com'',
       modules = [''performance'', ''seo'', ''bogus''], depth = 1, device = ''desktop'',
       timestamp = ''2024-05-01T12:00:00'', results = Map.empty,
       started_at = ''2024-05-01T12:00:00'',
       summary = None, completed_at = None, error = None \<rparr>"

definition example_world :: world where
  "example_world =
     start_analysis ''0000'' ''2024-05-01T12:00:00'' ''https://example.com''
       [''performance'', ''seo'', ''bogus''] 1 ''desktop'' empty_world"

text \<open>
  An interpreter that adds one item after the other, each addition rounded, as CPython
  does through version 3.11.
\<close>

fun float_add :: "pyfloat \<Rightarrow> pyfloat \<Rightarrow> pyfloat" where
  "float_add (Finite a) (Finite b) =
     (if too_large (a + b) then (if 0 < a + b then PosInf else NegInf)
      else Finite (round_double (a + b)))"
| "float_add NaN y = NaN"
| "float_add x NaN = NaN"
| "float_add PosInf NegInf = NaN"
| "float_add NegInf PosInf = NaN"
| "float_add PosInf y = PosInf"
| "float_add NegInf y = NegInf"
| "float_add x PosInf = PosInf"
| "float_add x NegInf = NegInf"

fun to_float :: "pynum \<Rightarrow> pyfloat" where
  "to_float (PInt i) = Finite (round_double (of_int i))"
| "to_float (PFloat x) = x"

definition left_to_right :: float_sum where
  "left_to_right acc items = foldl float_add (to_float (PInt acc)) (map to_float items)"

definition steady :: env where
  "steady = placeholders left_to_right ''2024-05-01T12:00:04'' Written"


definition broken_performance :: env where
  "broken_performance =
     steady\<lparr> analyze_performance := (\<lambda>u d. Inr [(''lighthouse_score'', JStr ''n/a'')]) \<rparr>"

definition full_disk :: env where
  "full_disk =
     placeholders left_to_right ''2024-05-01T12:00:04''
       (WriteFails ''No space left on device'' (Some (Unreadable ''Expecting value'')))"

definition all_results :: results where
  "all_results =
     [''performance'' \<mapsto> performance_payload,
      ''seo'' \<mapsto> seo_payload,
      ''accessibility'' \<mapsto> accessibility_payload,
      ''technology'' \<mapsto> technology_payload,
      ''carbon'' \<mapsto> carbon_payload]"

definition empty_dict_world :: world where
  "empty_dict_world =
     \<lparr> analysis_tasks = Map.empty,
       disk = [''data/analysis_results/0000.json'' \<mapsto> Loads (Json (JDict []))],
       logged = [] \<rparr>"

definition saved_world :: world where
  "saved_world =
     \<lparr> analysis_tasks = Map.empty,
       disk = [''data/analysis_results/0000.json'' \<mapsto> Loads (TaskDict example_task)],
       logged = [] \<rparr>"

definition example_summary :: summary where
  "example_summary =
     \<lparr> overall_score = PFloat (Finite 81.5),
       metrics = [''performance'' \<mapsto> JInt 85, ''seo'' \<mapsto> JInt 78],
       issues = \<lparr> critical = 0, important = 0, moderate = 0, minor = 0 \<rparr>,
       recommendations = [] \<rparr>"

section \<open>Rounding\<close>

lemma bit_length_0 [simp]: "bit_length 0 = 0"
  by (simp add: bit_length.simps)

lemma bit_length_1 [simp]: "bit_length (Suc 0) = 1" "bit_length 1 = 1"
  by (simp_all add: bit_length.simps [of 1] bit_length.simps [of "Suc 0"])

lemma bit_length_Bit0 [simp]: "bit_length (numeral (Num.Bit0 k)) = Suc (bit_length (numeral k))"
  by (subst bit_length.simps) simp

lemma bit_length_Bit1 [simp]: "bit_length (numeral (Num.Bit1 k)) = Suc (bit_length (numeral k))"
  by (subst bit_length.simps) simp

lemma bit_length_bounds:
  "0 < n \<Longrightarrow> 2 ^ (bit_length n - 1) \<le> n \<and> n < 2 ^ bit_length n"
proof (induction n rule: bit_length.induct)
  case (1 n)
  show ?case
  proof (cases "n div 2 = 0")
    case True
    with "1.prems" have "n = 1" by (simp add: div_eq_0_iff) 
    then show ?thesis by simp
  next
    case False
    then have pos: "0 < n div 2" by simp
    from "1.IH" [OF _ pos] "1.prems"
    have ih: "2 ^ (bit_length (n div 2) - 1) \<le> n div 2" "n div 2 < 2 ^ bit_length (n div 2)"
      by simp_all
    from pos have bl: "0 < bit_length (n div 2)"
      by (subst bit_length.simps) simp
    have eq: "bit_length n = Suc (bit_length (n div 2))"
      using "1.prems" by (subst bit_length.simps) simp
    from ih(1) have "2 * 2 ^ (bit_length (n div 2) - 1) \<le> n" by linarith
    moreover from bl have "2 * 2 ^ (bit_length (n div 2) - 1) = (2::nat) ^ bit_length (n div 2)"
      by (cases "bit_length (n div 2)") simp_all
    moreover from ih(2) have "n < 2 * 2 ^ bit_length (n div 2)" by linarith
    ultimately show ?thesis by (simp add: eq)
  qed
qed

lemma bit_length_pos: "0 < n \<Longrightarrow> 0 < bit_length n"
  by (subst bit_length.simps) simp

lemma bit_length_Suc:
  assumes "0 < n"
  obtains k where "bit_length n = Suc k" "2 ^ k \<le> real n" "real n + 1 \<le> 2 ^ Suc k"
proof -
  from bit_length_pos [OF assms] obtain k where k: "bit_length n = Suc k"
    by (cases "bit_length n") simp_all
  from bit_length_bounds [OF assms] k have "2 ^ k \<le> n" "Suc n \<le> 2 ^ Suc k" by simp_all
  then have "real (2 ^ k) \<le> real n" "real (Suc n) \<le> real (2 ^ Suc k)"
    by (simp_all only: of_nat_le_iff)
  then have "2 ^ k \<le> real n" "real n + 1 \<le> 2 ^ Suc k" by simp_all
  with k that show thesis by blast
qed

lemma floor_log2_bounds:
  assumes "0 < x"
  shows "2 powi floor_log2 x \<le> x \<and> x < 2 powi (floor_log2 x + 1)"
proof (cases "1 \<le> x")
  case True
  define n where "n = nat \<lfloor>x\<rfloor>"
  from True have f: "1 \<le> \<lfloor>x\<rfloor>" by simp
  then have rn: "real n = of_int \<lfloor>x\<rfloor>" and n: "0 < n" by (simp_all add: n_def)
  have lo: "real n \<le> x" unfolding rn by (rule of_int_floor_le)
  have hi: "x < real n + 1" unfolding rn by (rule real_of_int_floor_add_one_gt)
  from n obtain k where k: "bit_length n = Suc k" "2 ^ k \<le> real n" "real n + 1 \<le> 2 ^ Suc k"
    by (rule bit_length_Suc)
  have e: "floor_log2 x = int k"
    using True k(1) by (simp add: floor_log2_def n_def [symmetric])
  have e1: "floor_log2 x + 1 = int (Suc k)" by (simp add: e)
  show ?thesis
    unfolding e1 unfolding e power_int_of_nat using k(2,3) lo hi by linarith
next
  case False
  define c where "c = \<lceil>1 / x\<rceil>"
  define n where "n = nat (c - 1)"
  from False assms have y: "1 < 1 / x" by simp
  then have c2: "2 \<le> c" unfolding c_def by (simp add: le_ceiling_iff)
  have up: "1 / x \<le> of_int c" unfolding c_def by (rule le_of_int_ceiling)
  have lo: "of_int c - 1 < 1 / x"
    unfolding c_def using ceiling_correct [of "1 / x"] by (rule conjunct1)
  from c2 have n: "0 < n" and rn: "real n = of_int c - 1" by (simp_all add: n_def)
  from n obtain k where k: "bit_length n = Suc k" "2 ^ k \<le> real n" "real n + 1 \<le> 2 ^ Suc k"
    by (rule bit_length_Suc)
  have e: "floor_log2 x = - int (Suc k)"
    using False k(1) by (simp add: floor_log2_def n_def [symmetric] c_def [symmetric])
  have e1: "floor_log2 x + 1 = - int k" by (simp add: e)
  from up k(3) rn have "1 / x \<le> 2 ^ Suc k" by linarith
  with assms have a: "1 \<le> x * 2 ^ Suc k"
    by (simp add: pos_divide_le_eq mult.commute)
  from lo k(2) rn have "2 ^ k < 1 / x" by linarith
  with assms have b: "x * 2 ^ k < 1"
    by (simp add: pos_less_divide_eq mult.commute)
  have p1: "(2::real) powi (- int (Suc k)) = 1 / 2 ^ Suc k"
    by (simp only: power_int_minus power_int_of_nat inverse_eq_divide)
  have p2: "(2::real) powi (- int k) = 1 / 2 ^ k"
    by (simp only: power_int_minus power_int_of_nat inverse_eq_divide)
  have "1 / 2 ^ Suc k \<le> x"
    using a by (simp only: pos_divide_le_eq zero_less_power zero_less_numeral)
  moreover have "x < 1 / 2 ^ k"
    using b by (simp only: pos_less_divide_eq zero_less_power zero_less_numeral)
  ultimately show ?thesis
    unfolding e1 unfolding e p1 p2 by simp
qed

lemma round_half_even_error: "\<bar>of_int (round_half_even y) - y\<bar> \<le> 1 / 2"
  unfolding round_half_even_def Let_def by (auto simp: abs_if) linarith+

lemma round_double_relative_error:
  assumes "2 powi (- 1022) \<le> \<bar>x\<bar>"
  shows "\<bar>round_double x - x\<bar> \<le> \<bar>x\<bar> / 2 ^ 53"
proof -
  from assms have nz: "x \<noteq> 0" by auto
  then have pos: "0 < \<bar>x\<bar>" by simp
  define e where "e = floor_log2 \<bar>x\<bar>"
  from floor_log2_bounds [OF pos] have b: "2 powi e \<le> \<bar>x\<bar>" "\<bar>x\<bar> < 2 powi (e + 1)"
    unfolding e_def by simp_all
  from assms b(2) have "(2::real) powi (- 1022) < 2 powi (e + 1)" by linarith
  then have "- 1022 < e + 1"
    using power_int_increasing [of "e + 1" "- 1022" "2::real"] by (cases "- 1022 < e + 1") simp_all
  then have q: "max (e - 52) (- 1074) = e - 52" by simp
  define m where "m = round_half_even (\<bar>x\<bar> / 2 powi (e - 52))"
  have r: "round_double x = sgn x * of_int m * 2 powi (e - 52)"
    using nz by (simp add: round_double_def Let_def q m_def e_def [symmetric])
  define P :: real where "P = 2 powi (e - 52)"
  have p: "0 < P" by (simp add: P_def)
  have P: "P = 2 powi e / 2 ^ 52"
    unfolding P_def by (subst power_int_diff) simp_all
  have r': "round_double x = sgn x * (of_int m * P)"
    unfolding r P_def by simp
  have err: "\<bar>of_int m - \<bar>x\<bar> / P\<bar> \<le> 1 / 2"
    unfolding m_def P_def by (rule round_half_even_error)
  have "\<bar>round_double x - x\<bar> = \<bar>of_int m * P - \<bar>x\<bar>\<bar>"
  proof (cases "0 < x")
    case True
    then show ?thesis by (simp add: r')
  next
    case False
    with nz have "x < 0" by simp
    then have "round_double x - x = - (of_int m * P - \<bar>x\<bar>)" by (simp add: r')
    then show ?thesis by (simp only: abs_minus_cancel)
  qed
  also have "of_int m * P - \<bar>x\<bar> = (of_int m - \<bar>x\<bar> / P) * P"
    using p by (simp add: algebra_simps)
  also have "\<bar>(of_int m - \<bar>x\<bar> / P) * P\<bar> = \<bar>of_int m - \<bar>x\<bar> / P\<bar> * P"
    using p by (simp only: abs_mult abs_of_pos)
  also have "\<dots> \<le> 1 / 2 * P"
    using err p by (intro mult_right_mono) simp_all
  also have "\<dots> = 2 powi e / 2 ^ 53"
    unfolding P by simp
  also have "\<dots> \<le> \<bar>x\<bar> / 2 ^ 53"
    using b(1) by (simp add: divide_right_mono)
  finally show ?thesis .
qed

lemma round_double_0 [simp]: "round_double 0 = 0"
  by (simp add: round_double_def)

lemma not_too_large: "\<bar>x\<bar> \<le> 2 ^ 1023 \<Longrightarrow> \<not> too_large x"
  by (simp add: too_large_def)

text \<open>The quotients of the example runs.\<close>

lemma round_double_examples:
  "round_double (163 / 2) = 163 / 2"
  "round_double (157 / 2) = 157 / 2"
  "round_double 85 = 85"
  "round_double (235 / 3) = 5512218293917013 / 70368744177664"
  by (simp_all add: round_double_def floor_log2_def round_half_even_def power_int_minus Let_def)

lemma true_divide_examples:
  "true_divide (PInt 163) 2 = Inr (Finite (163 / 2))"
  "true_divide (PInt 157) 2 = Inr (Finite (157 / 2))"
  "true_divide (PInt 85) (Suc 0) = Inr (Finite 85)"
  "true_divide (PInt 235) 3 = Inr (Finite (5512218293917013 / 70368744177664))"
  using round_double_examples by (simp_all add: not_too_large)

section \<open>The summary aggregator\<close>

lemma fst_collect_score:
  "fst (collect_score res n f sm) =
     fst sm @ (case score_field res n f of None \<Rightarrow> [] | Some v \<Rightarrow> [v])"
  by (simp add: collect_score_def score_field_def split: option.splits)

lemma collected_scores:
  "fst (collect_score res ''accessibility'' ''score''
         (collect_score res ''seo'' ''score''
           (collect_score res ''performance'' ''lighthouse_score'' ([], Map.empty))))
   = present_scores res"
  by (simp add: fst_collect_score present_scores_def List.map_filter_def split: option.splits)

lemma length_present_scores: "length (present_scores res) \<le> 3"
  by (simp add: present_scores_def List.map_filter_def)

lemma number_of_int: "int_of v = Some i \<Longrightarrow> number_of v = Some (PInt i)"
  by (cases v) auto

lemma py_sum_from_ints:
  "map int_of vs = map Some xs \<Longrightarrow> py_sum_from fs acc vs = Inr (PInt (acc + sum_list xs))"
proof (induction vs arbitrary: acc xs)
  case Nil
  then show ?case by simp
next
  case (Cons v vs)
  then obtain x xs' where xs: "xs = x # xs'" "int_of v = Some x" "map int_of vs = map Some xs'"
    by (cases xs) auto
  from Cons.IH [OF xs(3), of "acc + x"] number_of_int [OF xs(2)] xs(1)
  show ?case by (simp add: add.assoc)
qed

lemma average_score_ints:
  assumes "xs \<noteq> []" and "map int_of vs = map Some xs"
  shows "average_score fs vs =
     (if too_large (arithmetic_mean xs) then Inl OverflowError
      else Inr (PFloat (Finite (round_double (arithmetic_mean xs)))))"
proof -
  from assms(2) have len: "length vs = length xs" by (metis length_map)
  with assms(1) have "vs \<noteq> []" by auto
  then show ?thesis
    by (simp add: average_score_def py_sum_def py_sum_from_ints [OF assms(2)] len
        arithmetic_mean_def)
qed

lemma average_score_float:
  assumes "average_score fs vs = Inr a" and "vs \<noteq> []"
  shows "\<exists>x. a = PFloat x"
  using assms by (auto simp: average_score_def split: sum.splits)

text \<open>
  The mean of at most three integers is zero or at least a third in size, far above the
  subnormal numbers, so rounding it to a double changes it by at most one part in
  \<open>2 ^ 53\<close>.
\<close>

lemma round_mean_error:
  assumes "xs \<noteq> []" and "length xs \<le> 3"
  shows "\<bar>round_double (arithmetic_mean xs) - arithmetic_mean xs\<bar>
           \<le> \<bar>arithmetic_mean xs\<bar> / 2 ^ 53"
proof (cases "sum_list xs = 0")
  case True
  then show ?thesis by (simp add: arithmetic_mean_def)
next
  case False
  define n where "n = length xs"
  from assms have n: "0 < n" "n \<le> 3" by (simp_all add: n_def)
  from False have "1 \<le> \<bar>sum_list xs\<bar>" by simp
  then have "real_of_int 1 \<le> real_of_int \<bar>sum_list xs\<bar>" by (simp only: of_int_le_iff)
  then have "1 \<le> \<bar>real_of_int (sum_list xs)\<bar>" by simp
  moreover from n have "1 / 3 \<le> 1 / real n" by (simp add: field_simps)
  ultimately have "1 / 3 \<le> \<bar>real_of_int (sum_list xs)\<bar> * (1 / real n)"
    using n(1) by (smt (verit) mult_mono divide_nonneg_nonneg of_nat_0_le_iff mult_cancel_right1)
  then have "1 / 3 \<le> \<bar>arithmetic_mean xs\<bar>"
    by (simp add: arithmetic_mean_def n_def)
  moreover have "(2::real) powi (- 1022) \<le> 1 / 3"
    by (simp add: power_int_minus inverse_eq_divide)
  ultimately have "2 powi (- 1022) \<le> \<bar>arithmetic_mean xs\<bar>" by linarith
  then show ?thesis by (rule round_double_relative_error)
qed




section \<open>The module dispatcher\<close>

text \<open>
  The chain of comparisons knows exactly the names of the recognized set.
\<close>

lemma invoke_recognized: "invoke env t m \<noteq> None \<longleftrightarrow> m \<in> recognized_modules"
  by (simp add: invoke_def recognized_modules_def)

text \<open>
  An iteration of the loop changes the results mapping and nothing else of the record.
\<close>

lemma run_module_frame:
  "fst (run_module env task_id m st) =
     (fst st)\<lparr> results := results (fst (run_module env task_id m st)) \<rparr>"
  by (simp add: run_module_def Let_def split: option.splits sum.splits)

lemma run_module_results:
  "results (fst (run_module env task_id m st)) =
     (case invoke env (fst st) m of
        None \<Rightarrow> results (fst st)
      | Some r \<Rightarrow> (results (fst st))(m \<mapsto> entry_of r))"
  by (simp add: run_module_def entry_of_def Let_def split: option.splits sum.splits)

lemma invoke_run_module:
  "invoke env (fst (run_module env task_id a st)) m = invoke env (fst st) m"
  by (subst run_module_frame) (simp add: invoke_def)

lemma run_modules_frame:
  "fst (run_modules env task_id ms st) =
     (fst st)\<lparr> results := results (fst (run_modules env task_id ms st)) \<rparr>"
proof (induction ms arbitrary: st)
  case Nil
  then show ?case by simp
next
  case (Cons a ms)
  have "fst (run_modules env task_id (a # ms) st) =
          (fst (run_module env task_id a st))
            \<lparr> results := results (fst (run_modules env task_id (a # ms) st)) \<rparr>"
    using Cons.IH [of "run_module env task_id a st"] by simp
  also have "\<dots> = (fst st)\<lparr> results := results (fst (run_modules env task_id (a # ms) st)) \<rparr>"
    by (subst run_module_frame) simp
  finally show ?case .
qed

lemma run_modules_results:
  "results (fst (run_modules env task_id ms st)) m =
     (if m \<in> set ms \<and> m \<in> recognized_modules
      then map_option entry_of (invoke env (fst st) m)
      else results (fst st) m)"
proof (induction ms arbitrary: st)
  case Nil
  then show ?case by simp
next
  case (Cons a ms)
  let ?st = "run_module env task_id a st"
  have step: "results (fst (run_modules env task_id (a # ms) st)) m =
      (if m \<in> set ms \<and> m \<in> recognized_modules
       then map_option entry_of (invoke env (fst st) m)
       else results (fst ?st) m)"
    using Cons.IH [of ?st] by (simp add: invoke_run_module)
  show ?case
  proof (cases "m = a")
    case True
    show ?thesis
    proof (cases "invoke env (fst st) a")
      case None
      with invoke_recognized [of env "fst st" a] have "a \<notin> recognized_modules" by simp
      with True None step show ?thesis by (simp add: run_module_results)
    next
      case (Some r)
      with invoke_recognized [of env "fst st" a] have "a \<in> recognized_modules" by simp
      with True Some step show ?thesis by (simp add: run_module_results)
    qed
  next
    case False
    then have "results (fst ?st) m = results (fst st) m"
      by (simp add: run_module_results split: option.splits)
    with False step show ?thesis by simp
  qed
qed

lemma dispatched_task:
  "fst (run_modules env task_id (modules t) (running task_id t w)) =
     t\<lparr> status := Running, results := dispatched env t \<rparr>"
proof -
  have "results (fst (run_modules env task_id (modules t) (running task_id t w)))
          = dispatched env t"
    by (rule ext) (simp add: run_modules_results dispatched_def, simp add: running_def invoke_def)
  then show ?thesis
    by (subst run_modules_frame) (simp add: running_def)
qed

section \<open>The run as a whole\<close>

lemma analysis_tasks_save_results [simp]:
  "analysis_tasks (save_results wo task_id t w) = analysis_tasks w"
  by (simp add: save_results_def split: write_outcome.splits)

lemma disk_save_results:
  "disk (save_results wo task_id t w) =
     (case wo of
        Written \<Rightarrow> (disk w)(filename task_id \<mapsto> Loads (TaskDict t))
      | WriteFails msg None \<Rightarrow> disk w
      | WriteFails msg (Some f) \<Rightarrow> (disk w)(filename task_id \<mapsto> f))"
  by (simp add: save_results_def split: write_outcome.splits option.splits)

lemma logged_save_results:
  "logged (save_results wo task_id t w) =
     logged w @ (case wo of
                   Written \<Rightarrow> []
                 | WriteFails msg left \<Rightarrow>
                     [LogError (''Failed to save results for task '' @ task_id @ '': '' @ msg)])"
  by (simp add: save_results_def split: write_outcome.splits)

lemma disk_save_results_store:
  "disk (save_results wo task_id t (store task_id' st w)) = disk (save_results wo task_id t w)"
  by (simp add: save_results_def store_def split: write_outcome.splits option.splits)

lemma disk_store [simp]: "disk (store task_id st w) = disk w"
  by (simp add: store_def)

lemma analysis_tasks_store [simp]:
  "analysis_tasks (store task_id st w) = (analysis_tasks w)(task_id \<mapsto> fst st)"
  by (simp add: store_def)

lemma analysis_tasks_finish:
  "analysis_tasks (finish env task_id st w) =
     (analysis_tasks w)(task_id \<mapsto>
        (case generate_summary (float_sum env) (results (fst st)) of
           Inl e \<Rightarrow> (fst st)\<lparr> status := Error, error := Some e \<rparr>
         | Inr s \<Rightarrow> (fst st)\<lparr> summary := Some s, status := Completed,
                               completed_at := Some (now env) \<rparr>))"
  by (simp add: finish_def Let_def split: sum.splits)

lemma disk_finish:
  "disk (finish env task_id st w) =
     (case generate_summary (float_sum env) (results (fst st)) of
        Inl e \<Rightarrow> disk w
      | Inr s \<Rightarrow>
          disk (save_results (write_outcome env) task_id
                  ((fst st)\<lparr> summary := Some s, status := Completed,
                              completed_at := Some (now env) \<rparr>) w))"
  by (simp add: finish_def Let_def disk_save_results_store split: sum.splits)

lemma logged_finish_save_failure:
  assumes "generate_summary (float_sum env) (results (fst st)) = Inr s" and "write_outcome env = WriteFails msg left"
  shows "LogError (''Failed to save results for task '' @ task_id @ '': '' @ msg)
           \<in> set (logged (finish env task_id st w))"
  using assms by (simp add: finish_def Let_def logged_save_results)

lemma run_analysis_present:
  "analysis_tasks w task_id = Some t \<Longrightarrow>
   run_analysis env task_id w =
     finish env task_id (run_modules env task_id (modules t) (running task_id t w)) w"
  by (simp add: run_analysis_def)

text \<open>
  The record and the files a run leaves, for a task that is in the store: the record keeps
  its request parameters, holds the dispatched results, and ends as an error or as
  completed according to the aggregator.
\<close>

lemma run_analysis_task:
  assumes "analysis_tasks w task_id = Some t"
  shows "analysis_tasks (run_analysis env task_id w) task_id =
     Some (case generate_summary (float_sum env) (dispatched env t) of
             Inl e \<Rightarrow> t\<lparr> results := dispatched env t, status := Error, error := Some e \<rparr>
           | Inr s \<Rightarrow> t\<lparr> results := dispatched env t, summary := Some s,
                         status := Completed, completed_at := Some (now env) \<rparr>)"
  unfolding run_analysis_present [OF assms]
  by (simp add: analysis_tasks_finish dispatched_task split: sum.splits)

lemma run_analysis_disk:
  assumes "analysis_tasks w task_id = Some t"
  shows "disk (run_analysis env task_id w) =
     (case generate_summary (float_sum env) (dispatched env t) of
        Inl e \<Rightarrow> disk w
      | Inr s \<Rightarrow>
          disk (save_results (write_outcome env) task_id
                  (t\<lparr> results := dispatched env t, summary := Some s,
                      status := Completed, completed_at := Some (now env) \<rparr>) w))"
  unfolding run_analysis_present [OF assms]
  by (simp add: disk_finish dispatched_task split: sum.splits)

lemma run_analysis_results:
  assumes "analysis_tasks w task_id = Some t"
    and "analysis_tasks (run_analysis env task_id w) task_id = Some t'"
  shows "results t' = dispatched env t"
  using assms(2) unfolding run_analysis_task [OF assms(1)]
  by (auto split: sum.splits)

lemma run_analysis_request:
  assumes "analysis_tasks w task_id = Some t"
    and "analysis_tasks (run_analysis env task_id w) task_id = Some t'"
  shows "url t' = url t \<and> modules t' = modules t \<and> depth t' = depth t \<and> device t' = device t
       \<and> timestamp t' = timestamp t \<and> started_at t' = started_at t"
  using assms(2) unfolding run_analysis_task [OF assms(1)]
  by (auto split: sum.splits)

lemma invoke_after_run:
  assumes "analysis_tasks w task_id = Some t"
    and "analysis_tasks (run_analysis env task_id w) task_id = Some t'"
  shows "invoke env' t' m = invoke env' t m"
  using run_analysis_request [OF assms] by (simp add: invoke_def)

lemma run_analysis_raised:
  assumes "analysis_tasks w task_id = Some t"
    and "analysis_tasks (run_analysis env task_id w) task_id = Some t'"
    and "generate_summary (float_sum env) (results t') = Inl e"
  shows "t' = t\<lparr> results := dispatched env t, status := Error, error := Some e \<rparr>"
    and "disk (run_analysis env task_id w) = disk w"
proof -
  from assms(3) have g: "generate_summary (float_sum env) (dispatched env t) = Inl e"
    by (simp add: run_analysis_results [OF assms(1,2)])
  from assms(2) show "t' = t\<lparr> results := dispatched env t, status := Error, error := Some e \<rparr>"
    unfolding run_analysis_task [OF assms(1)] by (simp add: g)
  show "disk (run_analysis env task_id w) = disk w"
    unfolding run_analysis_disk [OF assms(1)] by (simp add: g)
qed

lemma run_analysis_summarised:
  assumes "analysis_tasks w task_id = Some t"
    and "analysis_tasks (run_analysis env task_id w) task_id = Some t'"
    and "generate_summary (float_sum env) (results t') = Inr s"
  shows "t' = t\<lparr> results := dispatched env t, summary := Some s,
                  status := Completed, completed_at := Some (now env) \<rparr>"
    and "disk (run_analysis env task_id w)
           = disk (save_results (write_outcome env) task_id t' w)"
proof -
  from assms(3) have g: "generate_summary (float_sum env) (dispatched env t) = Inr s"
    by (simp add: run_analysis_results [OF assms(1,2)])
  from assms(2) show t': "t' = t\<lparr> results := dispatched env t, summary := Some s,
                  status := Completed, completed_at := Some (now env) \<rparr>"
    unfolding run_analysis_task [OF assms(1)] by (simp add: g)
  show "disk (run_analysis env task_id w)
           = disk (save_results (write_outcome env) task_id t' w)"
    unfolding run_analysis_disk [OF assms(1)] by (simp add: g t')
qed

lemma run_analysis_status:
  assumes "analysis_tasks w task_id = Some t"
    and "analysis_tasks (run_analysis env task_id w) task_id = Some t'"
  shows "status t' = (case generate_summary (float_sum env) (results t') of Inl e \<Rightarrow> Error | Inr s \<Rightarrow> Completed)"
proof (cases "generate_summary (float_sum env) (results t')")
  case (Inl e)
  from run_analysis_raised(1) [OF assms Inl] Inl show ?thesis by simp
next
  case (Inr s)
  from run_analysis_summarised(1) [OF assms Inr] Inr show ?thesis by simp
qed

lemma run_analysis_keeps_task:
  assumes "analysis_tasks w task_id = Some t"
  shows "\<exists>t'. analysis_tasks (run_analysis env task_id w) task_id = Some t'"
  by (simp add: run_analysis_task [OF assms])

lemma run_analysis_other_tasks:
  "other \<noteq> task_id \<Longrightarrow> analysis_tasks (run_analysis env task_id w) other = analysis_tasks w other"
  by (cases "analysis_tasks w task_id")
     (simp_all add: run_analysis_def analysis_tasks_finish)

lemma start_analysis_task:
  "analysis_tasks (start_analysis task_id stamp u ms n d w) task_id =
     Some \<lparr> status = Pending, url = u, modules = ms, depth = n, device = d,
            timestamp = stamp, results = Map.empty, started_at = stamp,
            summary = None, completed_at = None, error = None \<rparr>"
  by (simp add: start_analysis_def)

lemma disk_start_analysis [simp]:
  "disk (start_analysis task_id stamp u ms n d w) = disk w"
  by (simp add: start_analysis_def)

section \<open>The example runs\<close>

lemma now_placeholders: "now (placeholders fs clock wo) = clock"
  by (simp add: placeholders_def)

lemma example_world_task: "analysis_tasks example_world ''0000'' = Some example_task"
  by (simp add: example_world_def example_task_def start_analysis_task)

lemma disk_example_world: "disk example_world = Map.empty"
  by (simp add: example_world_def empty_world_def)

lemma dispatched_placeholders_example:
  "dispatched (placeholders fs clock wo) example_task
     = [''performance'' \<mapsto> performance_payload, ''seo'' \<mapsto> seo_payload]"
  by (rule ext)
     (simp add: dispatched_def invoke_def placeholders_def entry_of_def recognized_modules_def
        example_task_def)


lemma dispatched_broken_performance:
  "dispatched broken_performance example_task
     = [''performance'' \<mapsto> [(''lighthouse_score'', JStr ''n/a'')], ''seo'' \<mapsto> seo_payload]"
  by (rule ext)
     (simp add: dispatched_def invoke_def broken_performance_def steady_def placeholders_def
        entry_of_def recognized_modules_def example_task_def)

lemma scenario_dispatched:
  "dispatched (placeholders fs clock wo)
     \<lparr> status = Pending, url = u, modules = [''performance'', ''seo''], depth = n, device = d,
       timestamp = stamp, results = Map.empty, started_at = stamp,
       summary = None, completed_at = None, error = None \<rparr>
   = [''performance'' \<mapsto> performance_payload, ''seo'' \<mapsto> seo_payload]"
  by (rule ext)
     (simp add: dispatched_def invoke_def placeholders_def entry_of_def recognized_modules_def)

lemma average_examples:
  "average_score fs [JInt 85, JInt 78] = Inr (PFloat (Finite (163 / 2)))"
  "average_score fs [JInt 85, JInt 72] = Inr (PFloat (Finite (157 / 2)))"
  "average_score fs [JInt 85] = Inr (PFloat (Finite 85))"
  "average_score fs [JInt 85, JInt 78, JInt 72]
     = Inr (PFloat (Finite (5512218293917013 / 70368744177664)))"
  using average_score_ints [of "[85, 78]" "[JInt 85, JInt 78]" fs]
    average_score_ints [of "[85, 72]" "[JInt 85, JInt 72]" fs]
    average_score_ints [of "[85]" "[JInt 85]" fs]
    average_score_ints [of "[85, 78, 72]" "[JInt 85, JInt 78, JInt 72]" fs]
  by (simp_all add: arithmetic_mean_def not_too_large round_double_examples)

lemma slow_paint_performance_payload:
  "res ''performance'' = Some performance_payload \<Longrightarrow> slow_paint res = Inr False"
  by (simp add: slow_paint_def fcp_too_slow_def py_gt_def has_key_def performance_payload_def)

lemma scenario_summary:
  "generate_summary fs [''performance'' \<mapsto> performance_payload, ''seo'' \<mapsto> seo_payload] =
     Inr \<lparr> overall_score = PFloat (Finite 81.5),
           metrics = [''performance'' \<mapsto> JInt 85, ''seo'' \<mapsto> JInt 78],
           issues = \<lparr> critical = 0, important = 0, moderate = 0, minor = 0 \<rparr>,
           recommendations = [] \<rparr>"
  by (simp add: generate_summary_def collect_score_def average_examples
      slow_paint_performance_payload performance_payload_def seo_payload_def)


lemma summary_broken_performance:
  "generate_summary fs
     [''performance'' \<mapsto> [(''lighthouse_score'', JStr ''n/a'')], ''seo'' \<mapsto> seo_payload]
   = Inl TypeError"
  by (simp add: generate_summary_def collect_score_def average_score_def py_sum_def
      seo_payload_def)

lemma summary_all_results:
  "generate_summary fs all_results =
     Inr \<lparr> overall_score = PFloat (Finite (5512218293917013 / 70368744177664)),
           metrics = [''performance'' \<mapsto> JInt 85, ''seo'' \<mapsto> JInt 78,
                      ''accessibility'' \<mapsto> JInt 72],
           issues = \<lparr> critical = 0, important = 0, moderate = 0, minor = 0 \<rparr>,
           recommendations = [] \<rparr>"
  by (simp add: generate_summary_def collect_score_def average_examples
      slow_paint_performance_payload all_results_def
      performance_payload_def seo_payload_def accessibility_payload_def)

lemma summary_failed_seo:
  "generate_summary fs failed_seo_results =
     Inr \<lparr> overall_score = PFloat (Finite (157 / 2)),
           metrics = [''performance'' \<mapsto> JInt 85, ''accessibility'' \<mapsto> JInt 72],
           issues = \<lparr> critical = 0, important = 0, moderate = 0, minor = 0 \<rparr>,
           recommendations = [] \<rparr>"
  by (simp add: generate_summary_def collect_score_def average_examples
      slow_paint_performance_payload failed_seo_results_def
      performance_payload_def accessibility_payload_def)

lemma run_steady:
  "analysis_tasks (run_analysis steady ''0000'' example_world) ''0000'' =
     Some (example_task\<lparr> results := [''performance'' \<mapsto> performance_payload, ''seo'' \<mapsto> seo_payload],
             summary := Some example_summary, status := Completed,
             completed_at := Some ''2024-05-01T12:00:04'' \<rparr>)"
  by (simp add: run_analysis_task [OF example_world_task] steady_def
      dispatched_placeholders_example scenario_summary example_summary_def now_placeholders)


lemma run_broken_performance:
  "analysis_tasks (run_analysis broken_performance ''0000'' example_world) ''0000'' =
     Some (example_task\<lparr> results := [''performance'' \<mapsto> [(''lighthouse_score'', JStr ''n/a'')],
                                     ''seo'' \<mapsto> seo_payload],
             status := Error, error := Some TypeError \<rparr>)"
  by (simp add: run_analysis_task [OF example_world_task] dispatched_broken_performance
      summary_broken_performance)

lemma run_full_disk:
  "analysis_tasks (run_analysis full_disk ''0000'' example_world) ''0000'' =
     Some (example_task\<lparr> results := [''performance'' \<mapsto> performance_payload, ''seo'' \<mapsto> seo_payload],
             summary := Some example_summary, status := Completed,
             completed_at := Some ''2024-05-01T12:00:04'' \<rparr>)"
  by (simp add: run_analysis_task [OF example_world_task] full_disk_def
      dispatched_placeholders_example scenario_summary example_summary_def now_placeholders)


section \<open>The overall score\<close>

text \<open>
  Claim C1, as the code has it. Whenever the Summary Aggregator returns a summary: when
  none of the three scores is present (a missing result, or an error marker, which has
  neither field) the overall score is the \<^verbatim>\<open>int\<close> 0; otherwise it is a \<^verbatim>\<open>float\<close>, and
  when the present scores are integers it is the double nearest to their arithmetic
  mean, which differs from the mean by at most one part in \<open>2 ^ 53\<close>.
\<close>

theorem overall_score_is_rounded_mean:
  assumes "generate_summary fs res = Inr s"
  shows "(present_scores res = [] \<longrightarrow> overall_score s = PInt 0)
       \<and> (present_scores res \<noteq> [] \<longrightarrow> (\<exists>x. overall_score s = PFloat x))
       \<and> (\<forall>xs. xs \<noteq> [] \<and> map int_of (present_scores res) = map Some xs \<longrightarrow>
             overall_score s = PFloat (Finite (round_double (arithmetic_mean xs)))
             \<and> \<bar>round_double (arithmetic_mean xs) - arithmetic_mean xs\<bar>
                 \<le> \<bar>arithmetic_mean xs\<bar> / 2 ^ 53)"
proof -
  from assms obtain a where a: "average_score fs (present_scores res) = Inr a"
    and s: "overall_score s = a"
    unfolding generate_summary_def Let_def collected_scores
    by (auto split: sum.splits)
  have "overall_score s = PInt 0" if "present_scores res = []"
    using a s that by (simp add: average_score_def)
  moreover have "\<exists>x. overall_score s = PFloat x" if "present_scores res \<noteq> []"
    using average_score_float [OF a that] s by simp
  moreover have "overall_score s = PFloat (Finite (round_double (arithmetic_mean xs)))
      \<and> \<bar>round_double (arithmetic_mean xs) - arithmetic_mean xs\<bar>
           \<le> \<bar>arithmetic_mean xs\<bar> / 2 ^ 53"
    if xs: "xs \<noteq> [] \<and> map int_of (present_scores res) = map Some xs" for xs
  proof -
    from xs have "length xs = length (present_scores res)" by (metis length_map)
    with length_present_scores [of res] have "length xs \<le> 3" by simp
    with xs have "\<bar>round_double (arithmetic_mean xs) - arithmetic_mean xs\<bar>
           \<le> \<bar>arithmetic_mean xs\<bar> / 2 ^ 53"
      by (intro round_mean_error) simp_all
    moreover from xs a s average_score_ints [of xs "present_scores res" fs]
    have "overall_score s = PFloat (Finite (round_double (arithmetic_mean xs)))"
      by (simp split: if_splits)
    ultimately show ?thesis by blast
  qed
  ultimately show ?thesis by blast
qed

text \<open>
  An instance: the performance and accessibility placeholders answered and the SEO module
  failed, so the overall score is 78.5, the mean of 85 and 72, which is a double.
\<close>

theorem overall_score_is_rounded_mean_witness:
  "generate_summary left_to_right failed_seo_results =
     Inr \<lparr> overall_score = PFloat (Finite (157 / 2)),
           metrics = [''performance'' \<mapsto> JInt 85, ''accessibility'' \<mapsto> JInt 72],
           issues = \<lparr> critical = 0, important = 0, moderate = 0, minor = 0 \<rparr>,
           recommendations = [] \<rparr>
   \<and> present_scores failed_seo_results = [JInt 85, JInt 72]
   \<and> arithmetic_mean [85, 72] = 157 / 2
   \<and> round_double (arithmetic_mean [85, 72]) = 157 / 2
   \<and> generate_summary left_to_right Map.empty =
       Inr \<lparr> overall_score = PInt 0, metrics = Map.empty,
             issues = \<lparr> critical = 0, important = 0, moderate = 0, minor = 0 \<rparr>,
             recommendations = [] \<rparr>
   \<and> present_scores Map.empty = []"
proof -
  have e: "generate_summary left_to_right Map.empty =
       Inr \<lparr> overall_score = PInt 0, metrics = Map.empty,
             issues = \<lparr> critical = 0, important = 0, moderate = 0, minor = 0 \<rparr>,
             recommendations = [] \<rparr>"
    by (simp add: generate_summary_def collect_score_def average_score_def slow_paint_def)
  have pe: "present_scores Map.empty = []"
    by (simp add: present_scores_def score_field_def List.map_filter_def)
  note empty_case = overall_score_is_rounded_mean [OF e]
  have p: "present_scores failed_seo_results = [JInt 85, JInt 72]"
    by (simp add: present_scores_def score_field_def failed_seo_results_def List.map_filter_def
        performance_payload_def accessibility_payload_def)
  then have h: "[85, 72] \<noteq> [] \<and> map int_of (present_scores failed_seo_results) = map Some [85, 72]"
    by simp
  have m: "arithmetic_mean [85, 72] = 157 / 2" by (simp add: arithmetic_mean_def)
  from overall_score_is_rounded_mean [OF summary_failed_seo [of left_to_right]] h
  have "PFloat (Finite (157 / 2)) = PFloat (Finite (round_double (arithmetic_mean [85, 72])))"
    by (simp del: pynum.inject pyfloat.inject)
  with p m summary_failed_seo [of left_to_right] e pe empty_case show ?thesis by simp
qed

text \<open>
  The overall score is not always the arithmetic mean: for the default request all three
  placeholder scores are present, their mean is 235/3, which no double equals, and the
  overall score is the double next to it (printed 78.33333333333333).
\<close>

theorem overall_score_counterexample:
  "generate_summary left_to_right all_results =
     Inr \<lparr> overall_score = PFloat (Finite (5512218293917013 / 70368744177664)),
           metrics = [''performance'' \<mapsto> JInt 85, ''seo'' \<mapsto> JInt 78,
                      ''accessibility'' \<mapsto> JInt 72],
           issues = \<lparr> critical = 0, important = 0, moderate = 0, minor = 0 \<rparr>,
           recommendations = [] \<rparr>
   \<and> present_scores all_results = [JInt 85, JInt 78, JInt 72]
   \<and> arithmetic_mean [85, 78, 72] = 235 / 3
   \<and> (5512218293917013 / 70368744177664 :: real) \<noteq> arithmetic_mean [85, 78, 72]"
proof -
  have "present_scores all_results = [JInt 85, JInt 78, JInt 72]"
    by (simp add: present_scores_def score_field_def all_results_def List.map_filter_def
        performance_payload_def seo_payload_def accessibility_payload_def)
  moreover have "arithmetic_mean [85, 78, 72] = 235 / 3"
    by (simp add: arithmetic_mean_def)
  moreover have "(5512218293917013 / 70368744177664 :: real) \<noteq> 235 / 3"
    by simp
  ultimately show ?thesis
    using summary_all_results [of left_to_right] by simp
qed

text \<open>
  Nor is there always a summary for integer scores: a sum too large for a \<^verbatim>\<open>float\<close>
  makes the division raise.
\<close>

lemma generate_summary_overflow:
  "generate_summary fs [''seo'' \<mapsto> [(''score'', JInt (2 ^ 1024))]] = Inl OverflowError"
  using average_score_ints [of "[2 ^ 1024]" "[JInt (2 ^ 1024)]" fs]
  by (simp add: generate_summary_def collect_score_def arithmetic_mean_def too_large_def)

section \<open>Results of a completed task\<close>

text \<open>
  Claim C2. For a task created by \<^verbatim>\<open>start_analysis\<close> and run to status completed, the
  keys of its results mapping are exactly the requested module names that belong to the
  recognized set: every such name holds the entry of its module's outcome (the payload or
  the error marker), and an unrecognized name is not a key.
\<close>

theorem completed_results_keys:
  assumes "analysis_tasks (run_analysis env task_id (start_analysis task_id stamp u ms n d w)) task_id
             = Some t'"
    and "status t' = Completed"
  shows "dom (results t') = set ms \<inter> recognized_modules
       \<and> (\<forall>m \<in> set ms \<inter> recognized_modules.
             \<exists>r. invoke env t' m = Some r \<and> results t' m = Some (entry_of r))"
proof -
  note created = start_analysis_task [of task_id stamp u ms n d w]
  have res: "results t' m =
      (if m \<in> set ms \<and> m \<in> recognized_modules
       then map_option entry_of (invoke env t' m) else None)" for m
    by (simp add: run_analysis_results [OF created assms(1)] dispatched_def
        invoke_after_run [OF created assms(1)])
  have "dom (results t') = set ms \<inter> recognized_modules"
    using invoke_recognized [of env t'] by (auto simp: res dom_def split: if_splits)
  moreover have "\<exists>r. invoke env t' m = Some r \<and> results t' m = Some (entry_of r)"
    if "m \<in> set ms \<inter> recognized_modules" for m
    using that invoke_recognized [of env t' m] by (auto simp: res)
  ultimately show ?thesis by blast
qed

theorem completed_results_keys_witness:
  "\<exists>t'. analysis_tasks
          (run_analysis steady ''0000''
             (start_analysis ''0000'' ''2024-05-01T12:00:00'' ''https://example.com''
                [''performance'', ''seo'', ''bogus''] 1 ''desktop'' empty_world)) ''0000'' = Some t'
      \<and> status t' = Completed
      \<and> dom (results t') = {''performance'', ''seo''}
      \<and> (\<exists>r. invoke steady t' ''performance'' = Some r
             \<and> results t' ''performance'' = Some (entry_of r))
      \<and> (\<exists>r. invoke steady t' ''seo'' = Some r \<and> results t' ''seo'' = Some (entry_of r))"
proof -
  let ?t' = "example_task\<lparr> results := [''performance'' \<mapsto> performance_payload, ''seo'' \<mapsto> seo_payload],
             summary := Some example_summary, status := Completed,
             completed_at := Some ''2024-05-01T12:00:04'' \<rparr>"
  have h1: "analysis_tasks
          (run_analysis steady ''0000''
             (start_analysis ''0000'' ''2024-05-01T12:00:00'' ''https://example.com''
                [''performance'', ''seo'', ''bogus''] 1 ''desktop'' empty_world)) ''0000'' = Some ?t'"
    using run_steady by (simp add: example_world_def)
  have h2: "status ?t' = Completed" by simp
  have s: "set [''performance'', ''seo'', ''bogus''] \<inter> recognized_modules = {''performance'', ''seo''}"
    by (auto simp: recognized_modules_def)
  from completed_results_keys [OF h1 h2] h1 h2 show ?thesis
    unfolding s by (intro exI [of _ ?t']) simp
qed

section \<open>Failure isolation\<close>



section \<open>Task-level failure\<close>

text \<open>
  Claim C4. When an exception escapes the pipeline outside the per-module handler, which
  in the code is an exception of the summary generation, the run catches it: the record
  ends with status error and the error attached, its summary and completion time are not
  written, and nothing is saved.
\<close>

theorem summary_failure_sets_error:
  assumes "analysis_tasks w task_id = Some t"
    and "analysis_tasks (run_analysis env task_id w) task_id = Some t'"
    and "generate_summary (float_sum env) (results t') = Inl e"
  shows "status t' = Error \<and> error t' = Some e \<and> summary t' = summary t
       \<and> completed_at t' = completed_at t \<and> disk (run_analysis env task_id w) = disk w"
  using run_analysis_raised [OF assms] by simp

theorem summary_failure_sets_error_witness:
  "\<exists>t'. analysis_tasks example_world ''0000'' = Some example_task
      \<and> analysis_tasks (run_analysis broken_performance ''0000'' example_world) ''0000'' = Some t'
      \<and> generate_summary (float_sum broken_performance) (results t') = Inl TypeError
      \<and> status t' = Error \<and> error t' = Some TypeError
      \<and> summary t' = None \<and> completed_at t' = None
      \<and> disk (run_analysis broken_performance ''0000'' example_world) = disk example_world"
proof -
  let ?t' = "example_task\<lparr> results := [''performance'' \<mapsto> [(''lighthouse_score'', JStr ''n/a'')],
                                     ''seo'' \<mapsto> seo_payload],
             status := Error, error := Some TypeError \<rparr>"
  have h3: "generate_summary (float_sum broken_performance) (results ?t') = Inl TypeError"
    by (simp add: summary_broken_performance)
  have e: "summary example_task = None" "completed_at example_task = None"
    by (simp_all add: example_task_def)
  from summary_failure_sets_error [OF example_world_task run_broken_performance h3]
    example_world_task run_broken_performance h3 e
  show ?thesis
    by (intro exI [of _ ?t']) simp
qed

section \<open>Looking a task up\<close>

lemma storage_dir_eq: "storage_dir = ''data/analysis_results''"
  by (simp add: storage_dir_def path_join_def)

text \<open>
  The file of a task: under the storage directory, unless the identifier starts with a
  slash, for which \<^verbatim>\<open>os.path.join\<close> drops the directory.
\<close>

lemma filename_eq:
  "filename task_id =
     (if task_id \<noteq> [] \<and> hd task_id = CHR ''/'' then task_id @ ''.json''
      else ''data/analysis_results/'' @ task_id @ ''.json'')"
  by (cases task_id) (simp_all add: filename_def path_join_def storage_dir_eq)

text \<open>Different tasks have different files.\<close>

lemma inj_filename: "inj filename"
proof (rule injI)
  fix a b :: string
  assume eq: "filename a = filename b"
  show "a = b"
  proof (cases "a \<noteq> [] \<and> hd a = CHR ''/''")
    case True
    then obtain a' where a: "a = CHR ''/'' # a'" by (cases a) auto
    show ?thesis
    proof (cases "b \<noteq> [] \<and> hd b = CHR ''/''")
      case True
      with eq a show ?thesis by (simp add: filename_eq)
    next
      case False
      with eq a show ?thesis by (simp add: filename_eq)
    qed
  next
    case False
    note fa = this
    show ?thesis
    proof (cases "b \<noteq> [] \<and> hd b = CHR ''/''")
      case True
      then obtain b' where "b = CHR ''/'' # b'" by (cases b) auto
      with eq fa show ?thesis by (simp add: filename_eq)
    next
      case False
      with eq fa show ?thesis by (simp add: filename_eq)
    qed
  qed
qed

text \<open>
  Claim C5, as the code has it. \<^verbatim>\<open>get_analysis_results\<close> returns the record of the
  store when the identifier is in the store; otherwise what the task's own file loads to,
  when the file exists, loads, and the loaded value is true in \<^verbatim>\<open>if loaded_task\<close>, as
  the dictionary of every saved task record is; otherwise nothing. A missing identifier,
  a file that cannot be read and an empty loaded value are results of the function, not
  exceptions. The file is the one named after the identifier under the storage
  directory, and no two identifiers share a file.
\<close>

theorem get_analysis_results_cases:
  "fst (get_analysis_results task_id w) =
     (case analysis_tasks w task_id of
        Some t \<Rightarrow> Some (TaskDict t)
      | None \<Rightarrow>
          (case disk w (if task_id \<noteq> [] \<and> hd task_id = CHR ''/'' then task_id @ ''.json''
                        else ''data/analysis_results/'' @ task_id @ ''.json'') of
             Some (Loads d) \<Rightarrow> if truthy d then Some d else None
           | Some (Unreadable msg) \<Rightarrow> None
           | None \<Rightarrow> None))
   \<and> inj filename"
  unfolding filename_eq [symmetric]
  by (simp add: get_analysis_results_def load_results_def json_load_def inj_filename
      split: option.splits stored_file.splits)

text \<open>
  The specification's wording leaves the truth test out: for a task whose file holds an
  empty dictionary the file exists and loads, and the lookup returns nothing.
\<close>

theorem get_analysis_results_counterexample:
  "get_as_specified ''0000'' empty_dict_world = Some (Json (JDict []))
   \<and> fst (get_analysis_results ''0000'' empty_dict_world) = None"
  by (simp add: get_as_specified_def get_analysis_results_def load_results_def json_load_def
      empty_dict_world_def filename_eq)

text \<open>On the file of a saved task the two agree.\<close>

theorem get_analysis_results_cases_witness:
  "fst (get_analysis_results ''0000'' saved_world) = Some (TaskDict example_task)
   \<and> get_as_specified ''0000'' saved_world = Some (TaskDict example_task)"
  using get_analysis_results_cases [of "''0000''" saved_world]
  by (simp add: get_as_specified_def saved_world_def)

section \<open>The concrete scenario\<close>

text \<open>
  Claim C6. A submission with modules performance and SEO, run with the placeholder
  modules, ends completed with \<^verbatim>\<open>lighthouse_score\<close> 85, SEO \<^verbatim>\<open>score\<close> 78, overall
  score the \<^verbatim>\<open>float\<close> 81.5 and no recommendation, whatever the other parameters, the
  interpreter's sum of \<^verbatim>\<open>float\<close>s, the clock, the file system and the world before.
\<close>

theorem placeholder_scenario:
  "\<exists>t p q s.
     analysis_tasks
       (run_analysis (placeholders fs clock wo) task_id
          (start_analysis task_id stamp u [''performance'', ''seo''] n d w)) task_id = Some t
     \<and> status t = Completed
     \<and> results t ''performance'' = Some p \<and> map_of p ''lighthouse_score'' = Some (JInt 85)
     \<and> results t ''seo'' = Some q \<and> map_of q ''score'' = Some (JInt 78)
     \<and> summary t = Some s \<and> overall_score s = PFloat (Finite 81.5)
     \<and> recommendations s = []"
proof -
  let ?s = "\<lparr> overall_score = PFloat (Finite 81.5),
           metrics = [''performance'' \<mapsto> JInt 85, ''seo'' \<mapsto> JInt 78],
           issues = \<lparr> critical = 0, important = 0, moderate = 0, minor = 0 \<rparr>,
           recommendations = [] \<rparr>"
  let ?t = "\<lparr> status = Pending, url = u, modules = [''performance'', ''seo''], depth = n,
       device = d, timestamp = stamp, results = Map.empty, started_at = stamp,
       summary = None, completed_at = None, error = None \<rparr>"
  let ?t' = "?t\<lparr> results := [''performance'' \<mapsto> performance_payload, ''seo'' \<mapsto> seo_payload],
      summary := Some ?s, status := Completed, completed_at := Some clock \<rparr>"
  have "analysis_tasks
       (run_analysis (placeholders fs clock wo) task_id
          (start_analysis task_id stamp u [''performance'', ''seo''] n d w)) task_id = Some ?t'"
    by (simp add: run_analysis_task [OF start_analysis_task] scenario_dispatched scenario_summary
        now_placeholders)
  moreover have "map_of performance_payload ''lighthouse_score'' = Some (JInt 85)"
    by (simp add: performance_payload_def)
  moreover have "map_of seo_payload ''score'' = Some (JInt 78)"
    by (simp add: seo_payload_def)
  ultimately show ?thesis by simp
qed

section \<open>Running a missing task\<close>

text \<open>
  Claim C7. For an identifier that is not in the store, \<^verbatim>\<open>run_analysis\<close> logs that the
  task was not found and returns; the store and the files are as before.
\<close>

theorem run_analysis_missing_task:
  assumes "analysis_tasks w task_id = None"
  shows "run_analysis env task_id w =
           w\<lparr> logged := logged w @ [LogError (''Task '' @ task_id @ '' not found'')] \<rparr>
         \<and> analysis_tasks (run_analysis env task_id w) = analysis_tasks w
         \<and> disk (run_analysis env task_id w) = disk w"
  using assms by (simp add: run_analysis_def)

theorem run_analysis_missing_task_witness:
  "analysis_tasks empty_world ''0000'' = None
   \<and> run_analysis (steady) ''0000'' empty_world =
       empty_world\<lparr> logged := logged empty_world @ [LogError (''Task '' @ ''0000'' @ '' not found'')] \<rparr>
   \<and> analysis_tasks (run_analysis (steady) ''0000'' empty_world)
       = analysis_tasks empty_world
   \<and> disk (run_analysis (steady) ''0000'' empty_world)
       = disk empty_world"
proof -
  have h: "analysis_tasks empty_world ''0000'' = None"
    by (simp add: empty_world_def)
  from run_analysis_missing_task [OF h] h show ?thesis by simp
qed

section \<open>The order of the statuses\<close>

lemma remdups_adj_replicate_Cons:
  "remdups_adj (x # replicate k x @ ys) = remdups_adj (x # ys)"
  by (induction k) simp_all

lemma status_history_Cons:
  "status_history task_id (w # ws) =
     map_option status (analysis_tasks w task_id) # status_history task_id ws"
  by (simp add: status_history_def)

lemma status_history_append:
  "status_history task_id (ws @ ws') = status_history task_id ws @ status_history task_id ws'"
  by (simp add: status_history_def)

lemma status_history_store:
  "status_history task_id (map (\<lambda>st. store task_id st w) sts) =
     map (\<lambda>st. Some (status (fst st))) sts"
  by (simp add: status_history_def)

lemma status_run_module: "status (fst (run_module env task_id m st)) = status (fst st)"
  by (subst run_module_frame) simp

lemma status_run_modules_trace:
  "map (\<lambda>st. Some (status (fst st))) (run_modules_trace env task_id ms st) =
     replicate (length ms) (Some (status (fst st)))"
  by (induction ms arbitrary: st) (simp_all add: status_run_module)

lemma status_history_finish_trace:
  "status_history task_id (finish_trace env task_id st w) =
     (case generate_summary (float_sum env) (results (fst st)) of
        Inl e \<Rightarrow> [Some (status (fst st)), Some Error, Some Error]
      | Inr s \<Rightarrow> Some (status (fst st)) # replicate 4 (Some Completed))"
  by (simp add: finish_trace_def status_history_def Let_def numeral_eq_Suc split: sum.splits)

lemma last_finish_trace:
  "last (finish_trace env task_id st w) = finish env task_id st w"
  by (simp add: finish_trace_def finish_def Let_def split: sum.splits)

lemma finish_trace_not_Nil: "finish_trace env task_id st w \<noteq> []"
  by (simp add: finish_trace_def Let_def split: sum.splits)

lemma last_run_analysis_trace:
  "last (run_analysis_trace env task_id w) = run_analysis env task_id w"
  by (simp add: run_analysis_trace_def run_analysis_def Let_def last_finish_trace
      finish_trace_not_Nil split: option.splits)

lemma status_history_run_analysis_trace:
  assumes "analysis_tasks w task_id = Some t"
  shows "status_history task_id (run_analysis_trace env task_id w) =
     Some Running # Some Running # replicate (length (modules t)) (Some Running)
     @ Some Running # (case generate_summary (float_sum env) (dispatched env t) of
          Inl e \<Rightarrow> [Some Error, Some Error]
        | Inr s \<Rightarrow> replicate 4 (Some Completed))"
proof -
  let ?st = "running task_id t w"
  have r: "status (fst ?st) = Running" by (simp add: running_def)
  have "status_history task_id (run_analysis_trace env task_id w) =
      status_history task_id (map (\<lambda>st. store task_id st w)
                ((t\<lparr> status := Running \<rparr>, logged w) # ?st
                   # run_modules_trace env task_id (modules t) ?st))
      @ status_history task_id
          (finish_trace env task_id (run_modules env task_id (modules t) ?st) w)"
    using assms
    by (simp add: run_analysis_trace_def Let_def status_history_append status_history_Cons)
  also have "\<dots> = (Some Running # Some Running # replicate (length (modules t)) (Some Running))
      @ (case generate_summary (float_sum env) (dispatched env t) of
          Inl e \<Rightarrow> [Some Running, Some Error, Some Error]
        | Inr s \<Rightarrow> Some Running # replicate 4 (Some Completed))"
    unfolding status_history_store status_history_finish_trace
    by (simp add: status_run_modules_trace r dispatched_task split: sum.splits)
  finally show ?thesis by (simp split: sum.splits)
qed

text \<open>
  Claim C8. Over the life of a task, from its creation through every state of its run, the
  statuses the store shows for it are, with repetitions dropped, pending, running,
  completed or pending, running, error: the status starts as pending, never goes back,
  and does not change after completed or error. The trace starts in the world of the
  creation and ends in the world \<^verbatim>\<open>run_analysis\<close> returns.
\<close>

theorem status_moves_forward:
  "remdups_adj (status_history task_id (lifecycle_trace env task_id stamp u ms n d w))
     \<in> {[Some Pending, Some Running, Some Completed], [Some Pending, Some Running, Some Error]}
   \<and> hd (lifecycle_trace env task_id stamp u ms n d w) = start_analysis task_id stamp u ms n d w
   \<and> last (lifecycle_trace env task_id stamp u ms n d w)
       = run_analysis env task_id (start_analysis task_id stamp u ms n d w)"
proof -
  let ?w0 = "start_analysis task_id stamp u ms n d w"
  note created = start_analysis_task [of task_id stamp u ms n d w]
  have hist: "status_history task_id (lifecycle_trace env task_id stamp u ms n d w) =
      Some Pending # status_history task_id (run_analysis_trace env task_id ?w0)"
    by (simp add: lifecycle_trace_def Let_def status_history_def created)
  have "run_analysis_trace env task_id ?w0 \<noteq> []"
    by (simp add: run_analysis_trace_def Let_def created finish_trace_not_Nil)
  then have "last (lifecycle_trace env task_id stamp u ms n d w) = run_analysis env task_id ?w0"
    by (simp add: lifecycle_trace_def Let_def last_run_analysis_trace)
  moreover have "hd (lifecycle_trace env task_id stamp u ms n d w) = ?w0"
    by (simp add: lifecycle_trace_def Let_def)
  moreover have "remdups_adj (status_history task_id (lifecycle_trace env task_id stamp u ms n d w))
     \<in> {[Some Pending, Some Running, Some Completed], [Some Pending, Some Running, Some Error]}"
    unfolding hist status_history_run_analysis_trace [OF created]
    by (simp add: numeral_eq_Suc remdups_adj_replicate_Cons split: sum.splits)
  ultimately show ?thesis by blast
qed

section \<open>Persistence\<close>

text \<open>
  Claim C9. A run that ends in status error writes no file; so when the task's file did
  not exist before the run, a lookup after the store has lost its entries finds
  nothing.
\<close>

theorem errored_task_is_not_persisted:
  assumes "analysis_tasks w task_id = Some t"
    and "analysis_tasks (run_analysis env task_id w) task_id = Some t'"
    and "status t' = Error"
  shows "disk (run_analysis env task_id w) = disk w
       \<and> (disk w (filename task_id) = None \<longrightarrow>
            fst (get_analysis_results task_id
                   ((run_analysis env task_id w)\<lparr> analysis_tasks := Map.empty \<rparr>)) = None)"
proof -
  from run_analysis_status [OF assms(1,2)] assms(3)
  obtain e where "generate_summary (float_sum env) (results t') = Inl e"
    by (cases "generate_summary (float_sum env) (results t')") simp_all
  from run_analysis_raised(2) [OF assms(1,2) this]
  show ?thesis
    by (simp add: get_analysis_results_def load_results_def)
qed

theorem errored_task_is_not_persisted_witness:
  "\<exists>t'. analysis_tasks example_world ''0000'' = Some example_task
      \<and> analysis_tasks (run_analysis broken_performance ''0000'' example_world) ''0000'' = Some t'
      \<and> status t' = Error
      \<and> disk example_world (filename ''0000'') = None
      \<and> disk (run_analysis broken_performance ''0000'' example_world) = disk example_world
      \<and> fst (get_analysis_results ''0000''
               ((run_analysis broken_performance ''0000'' example_world)
                  \<lparr> analysis_tasks := Map.empty \<rparr>)) = None"
proof -
  let ?t' = "example_task\<lparr> results := [''performance'' \<mapsto> [(''lighthouse_score'', JStr ''n/a'')],
                                     ''seo'' \<mapsto> seo_payload],
             status := Error, error := Some TypeError \<rparr>"
  have h3: "status ?t' = Error" by simp
  have h4: "disk example_world (filename ''0000'') = None"
    by (simp add: disk_example_world)
  from errored_task_is_not_persisted [OF example_world_task run_broken_performance h3]
    example_world_task run_broken_performance h3 h4
  show ?thesis
    by (intro exI [of _ ?t']) simp
qed

text \<open>
  Claim C10. When the summary was generated and writing the task's file raises, the
  exception is caught and logged by the save step: the record ends completed with its
  summary and completion time, its error field untouched.
\<close>

theorem save_failure_keeps_completed:
  assumes "analysis_tasks w task_id = Some t"
    and "analysis_tasks (run_analysis env task_id w) task_id = Some t'"
    and "generate_summary (float_sum env) (results t') = Inr s"
    and "write_outcome env = WriteFails msg left"
  shows "status t' = Completed \<and> summary t' = Some s \<and> completed_at t' = Some (now env)
       \<and> error t' = error t
       \<and> LogError (''Failed to save results for task '' @ task_id @ '': '' @ msg)
           \<in> set (logged (run_analysis env task_id w))
       \<and> disk (run_analysis env task_id w) =
           (case left of None \<Rightarrow> disk w | Some f \<Rightarrow> (disk w)(filename task_id \<mapsto> f))"
proof -
  note fin = run_analysis_summarised [OF assms(1,2,3)]
  have g: "generate_summary (float_sum env)
      (results (fst (run_modules env task_id (modules t) (running task_id t w)))) = Inr s"
    using assms(3) by (simp add: dispatched_task run_analysis_results [OF assms(1,2)])
  have "LogError (''Failed to save results for task '' @ task_id @ '': '' @ msg)
           \<in> set (logged (run_analysis env task_id w))"
    unfolding run_analysis_present [OF assms(1)]
    by (rule logged_finish_save_failure [OF g assms(4)])
  moreover have "disk (run_analysis env task_id w) =
           (case left of None \<Rightarrow> disk w | Some f \<Rightarrow> (disk w)(filename task_id \<mapsto> f))"
    by (simp add: fin(2) disk_save_results assms(4) split: option.splits)
  ultimately show ?thesis using fin(1) by simp
qed

theorem save_failure_keeps_completed_witness:
  "\<exists>t'. analysis_tasks example_world ''0000'' = Some example_task
      \<and> analysis_tasks (run_analysis full_disk ''0000'' example_world) ''0000'' = Some t'
      \<and> generate_summary (float_sum full_disk) (results t') = Inr example_summary
      \<and> write_outcome full_disk
           = WriteFails ''No space left on device'' (Some (Unreadable ''Expecting value''))
      \<and> status t' = Completed \<and> summary t' = Some example_summary
      \<and> completed_at t' = Some ''2024-05-01T12:00:04'' \<and> error t' = None
      \<and> LogError (''Failed to save results for task '' @ ''0000'' @ '': ''
                    @ ''No space left on device'')
           \<in> set (logged (run_analysis full_disk ''0000'' example_world))
      \<and> disk (run_analysis full_disk ''0000'' example_world)
           = (disk example_world)(filename ''0000'' \<mapsto> Unreadable ''Expecting value'')"
proof -
  let ?t' = "example_task\<lparr> results := [''performance'' \<mapsto> performance_payload, ''seo'' \<mapsto> seo_payload],
             summary := Some example_summary, status := Completed,
             completed_at := Some ''2024-05-01T12:00:04'' \<rparr>"
  have h3: "generate_summary (float_sum full_disk) (results ?t') = Inr example_summary"
    by (simp add: scenario_summary example_summary_def)
  have h4: "write_outcome full_disk
           = WriteFails ''No space left on device'' (Some (Unreadable ''Expecting value''))"
    by (simp add: full_disk_def placeholders_def)
  have n: "now full_disk = ''2024-05-01T12:00:04''"
    by (simp add: full_disk_def now_placeholders)
  have e: "error example_task = None" by (simp add: example_task_def)
  from save_failure_keeps_completed [OF example_world_task run_full_disk h3 h4]
    example_world_task run_full_disk h3 h4 n e
  show ?thesis
    by (intro exI [of _ ?t']) simp
qed

end
